theory Spec2Isabelle
  imports Complex_Main "HOL-Library.Multiset"
begin

section \<open>Podcatcher-Web: feed parser, playback engine and time-bounded cache\<close>

text \<open>
  A shallow embedding of \<^verbatim>\<open>src/js/utils.js\<close> (storage and cache helpers, XML entry point),
  of the \<^verbatim>\<open>PodcastAPI\<close> class (feed parsing) and of \<^verbatim>\<open>src/js/player.js\<close>
  (the \<^verbatim>\<open>AudioPlayer\<close> class). JavaScript objects are records, \<^verbatim>\<open>null\<close> and
  \<^verbatim>\<open>undefined\<close> are \<open>None\<close>, a thrown \<^verbatim>\<open>Error\<close> is a value of type \<open>error\<close>,
  \<^verbatim>\<open>localStorage\<close> is a map from keys to the records the program writes there, and the
  browser capabilities the program calls (DOM parser, HTML text extraction, date parser,
  URL check, base-64, the media element's ready state) are parameters.
\<close>

subsection \<open>Data model\<close>

text \<open>
  The numbers that \<^verbatim>\<open>parseDuration\<close> computes are IEEE doubles whose value is a
  non-negative integer, or \<^verbatim>\<open>Infinity\<close> (\<open>Overflow\<close>) once the value leaves the range
  of the doubles.
\<close>

datatype whole = Whole int | Overflow

text \<open>The object built by \<^verbatim>\<open>parseEpisodeItem\<close>. The field \<^verbatim>\<open>type\<close> is \<open>mime\<close> here, and
  it is \<open>None\<close> when the enclosure carries no \<^verbatim>\<open>type\<close> attribute (\<^verbatim>\<open>getAttribute\<close> gives
  \<^verbatim>\<open>null\<close>).\<close>

record episode =
  title :: string
  description :: string
  audioUrl :: string
  pubDate :: string
  ep_duration :: whole
  artwork :: string
  guid :: string
  mime :: "string option"

text \<open>A thrown error with its message: \<^verbatim>\<open>new Error(message)\<close> of the program, or a
  \<^verbatim>\<open>TypeError\<close> raised by the browser.\<close>

datatype error = Error string | TypeError string

fun message :: "error \<Rightarrow> string" where
  "message (Error m) = m"
| "message (TypeError m) = m"

text \<open>
  What the program keeps under a \<^verbatim>\<open>localStorage\<close> key: \<^verbatim>\<open>{episode, timestamp}\<close> under
  \<^verbatim>\<open>currentEpisode\<close>, \<^verbatim>\<open>{episodeGuid, position, timestamp}\<close> under
  \<^verbatim>\<open>playbackPosition\<close>, and \<^verbatim>\<open>{value, timestamp}\<close> under a cache key. The JSON round
  trip (\<^verbatim>\<open>JSON.stringify\<close> on write, \<^verbatim>\<open>JSON.parse\<close> on read) is the identity on these
  records. Timestamps are \<^verbatim>\<open>Date.now()\<close> values, integers in milliseconds.
\<close>

datatype 'v stored =
    CurrentEpisodeRec "episode option" int
  | PlaybackPositionRec string real int
  | CacheRec 'v int

type_synonym 'v storage = "string \<rightharpoonup> 'v stored"

fun timestamp :: "'v stored \<Rightarrow> int" where
  "timestamp (CurrentEpisodeRec e t) = t"
| "timestamp (PlaybackPositionRec g p t) = t"
| "timestamp (CacheRec v t) = t"

text \<open>\<^verbatim>\<open>data.value\<close>: \<^verbatim>\<open>undefined\<close> on a record that has no such field.\<close>

fun cache_value :: "'v stored \<Rightarrow> 'v option" where
  "cache_value (CacheRec v t) = Some v"
| "cache_value (CurrentEpisodeRec e t) = None"
| "cache_value (PlaybackPositionRec g p t) = None"

subsection \<open>Storage and cache helpers (utils.js)\<close>

definition saveToLocalStorage :: "string \<Rightarrow> 'v stored \<Rightarrow> 'v storage \<Rightarrow> 'v storage" where
  "saveToLocalStorage key data ls = ls(key \<mapsto> data)"

definition loadFromLocalStorage :: "string \<Rightarrow> 'v storage \<Rightarrow> 'v stored option" where
  "loadFromLocalStorage key ls = ls key"

text \<open>
  \<^verbatim>\<open>getCachedData(key, maxAge)\<close> at clock reading \<open>now\<close>: the result and the storage after
  the call. The source's test is \<^verbatim>\<open>Date.now() - data.timestamp > maxAge\<close>.
\<close>

definition getCachedData :: "int \<Rightarrow> string \<Rightarrow> int \<Rightarrow> 'v storage \<Rightarrow> 'v option \<times> 'v storage" where
  "getCachedData now key maxAge ls =
     (case ls key of
        None \<Rightarrow> (None, ls)
      | Some data \<Rightarrow>
          if now - timestamp data > maxAge then (None, ls(key := None))
          else (cache_value data, ls))"

definition setCachedData :: "int \<Rightarrow> string \<Rightarrow> 'v \<Rightarrow> 'v storage \<Rightarrow> 'v storage" where
  "setCachedData now key v ls = ls(key \<mapsto> CacheRec v now)"

text \<open>The claim of C3 as the spec words it: expiry at \<open>now - timestamp \<ge> maxAge\<close>.\<close>

definition ttl_read_as_specified :: "int \<Rightarrow> string \<Rightarrow> int \<Rightarrow> 'v storage \<Rightarrow> bool" where
  "ttl_read_as_specified now key maxAge ls =
     (case ls key of
        Some (CacheRec v t) \<Rightarrow>
          getCachedData now key maxAge ls =
            (if now - t \<ge> maxAge then (None, ls(key := None)) else (Some v, ls))
      | _ \<Rightarrow> True)"

subsection \<open>The playback engine (player.js)\<close>

text \<open>
  A JavaScript number as the media element reports its duration: \<^verbatim>\<open>NaN\<close> while the
  duration is unknown, a finite number of seconds, or \<^verbatim>\<open>Infinity\<close> for an unbounded
  stream. Positions (\<^verbatim>\<open>audio.currentTime\<close>) are finite, hence \<open>real\<close>; \<^verbatim>\<open>Math.min\<close> and
  \<^verbatim>\<open>Math.max\<close> are exact, and the rounding of a floating-point sum is not modelled.
\<close>

datatype jsnum = NaN | Num real | Infinity

text \<open>The fields of the \<^verbatim>\<open>audio\<close> element that the player reads or writes.\<close>

record audio_element =
  src :: string
  paused :: bool
  au_currentTime :: real
  au_duration :: jsnum
  readyState :: nat

text \<open>
  The closures handed to \<^verbatim>\<open>setTimeout\<close> by \<^verbatim>\<open>waitForReadyAndPlay\<close>: the poll
  \<^verbatim>\<open>tryPlay\<close> and the ten-second timeout, which closes over the \<^verbatim>\<open>onCanPlay\<close> listener
  it will remove (listeners are numbered as they are created).
\<close>

datatype callback = TryPlay | LoadTimeout nat

text \<open>Messages handed to \<^verbatim>\<open>announceToScreenReader\<close>; the two skip messages carry the
  number of seconds that the template string prints.\<close>

datatype announcement = Say string | SkippedBack real | SkippedForward real

text \<open>
  The player object together with the globals it touches: \<^verbatim>\<open>localStorage\<close>, the clock
  (\<^verbatim>\<open>Date.now()\<close>, milliseconds; one task of the event loop runs at one clock reading), the
  pending timers in the order they were created, the registered \<^verbatim>\<open>canplay\<close> listeners,
  the announcements made, and the number of \<^verbatim>\<open>audio.play()\<close> requests issued. Of the DOM,
  \<open>loading\<close> is the state set by \<^verbatim>\<open>setLoadingState\<close> (controls disabled, spinner shown),
  \<open>episodeTitle\<close> and \<open>episodePodcast\<close> are the two text labels, \<open>progressBar\<close> is the
  slider value and \<open>playerShown\<close> says that the player surface is visible; artwork, time
  labels, icons and the media-session metadata are not tracked.
\<close>

record 'v player =
  audio :: audio_element
  currentEpisode :: "episode option"
  isPlaying :: bool
  currentTime :: real
  duration :: jsnum
  loading :: bool
  episodeTitle :: string
  episodePodcast :: string
  progressBar :: real
  playerShown :: bool
  announcements :: "announcement list"
  localStorage :: "'v storage"
  clock :: int
  timers :: "(int \<times> callback) list"
  canplayListeners :: "nat list"
  nextListener :: nat
  playRequests :: nat

definition announceToScreenReader :: "announcement \<Rightarrow> 'v player \<Rightarrow> 'v player" where
  "announceToScreenReader m s = s\<lparr>announcements := announcements s @ [m]\<rparr>"

definition setLoadingState :: "bool \<Rightarrow> 'v player \<Rightarrow> 'v player" where
  "setLoadingState b s = s\<lparr>loading := b\<rparr>"

text \<open>The writes of \<^verbatim>\<open>updatePlayerUI\<close> to the DOM. Its last statement, the call of
  \<^verbatim>\<open>updateMediaSession\<close>, is \<open>updateMediaSession\<close> below.\<close>

definition updatePlayerUI :: "episode \<Rightarrow> string \<Rightarrow> 'v player \<Rightarrow> 'v player" where
  "updatePlayerUI e podcastName s =
     s\<lparr>episodeTitle := title e, episodePodcast := podcastName, progressBar := 0\<rparr>"

text \<open>
  \<^verbatim>\<open>updateMediaSession(episode, podcastName)\<close>: with an artwork it builds
  \<^verbatim>\<open>new MediaMetadata({..., artwork: [{src: episode.artwork, ...}]})\<close>, and that
  constructor throws a \<^verbatim>\<open>TypeError\<close> when the source is not a URL it can parse (for
  instance \<^verbatim>\<open>http://\<close>). The browser is the parameter \<open>mm\<close>: \<open>mm u\<close> is the message of
  the error thrown for the artwork \<open>u\<close>, or \<open>None\<close> when the constructor succeeds or the
  browser has no media session. The result is the error thrown, if any; the metadata
  itself is not tracked.
\<close>

definition updateMediaSession :: "(string \<Rightarrow> string option) \<Rightarrow> episode \<Rightarrow> error option" where
  "updateMediaSession mm e =
     (if artwork e = [] then None
      else case mm (artwork e) of None \<Rightarrow> None | Some m \<Rightarrow> Some (TypeError m))"

definition showPlayer :: "'v player \<Rightarrow> 'v player" where
  "showPlayer s = s\<lparr>playerShown := True\<rparr>"

definition hidePlayer :: "'v player \<Rightarrow> 'v player" where
  "hidePlayer s = s\<lparr>playerShown := False\<rparr>"

definition saveCurrentEpisode :: "'v player \<Rightarrow> 'v player" where
  "saveCurrentEpisode s =
     (case currentEpisode s of
        None \<Rightarrow> s
      | Some e \<Rightarrow>
          s\<lparr>localStorage :=
              saveToLocalStorage ''currentEpisode'' (CurrentEpisodeRec (Some e) (clock s))
                (localStorage s)\<rparr>)"

definition savePlaybackPosition :: "'v player \<Rightarrow> 'v player" where
  "savePlaybackPosition s =
     (case currentEpisode s of
        None \<Rightarrow> s
      | Some e \<Rightarrow>
          if currentTime s > 0 then
            s\<lparr>localStorage :=
                saveToLocalStorage ''playbackPosition''
                  (PlaybackPositionRec (guid e) (currentTime s) (clock s)) (localStorage s)\<rparr>
          else s)"

text \<open>
  \<^verbatim>\<open>play()\<close>: nothing without an episode, otherwise one \<^verbatim>\<open>audio.play()\<close> request. Whether
  the media element then starts (a \<^verbatim>\<open>play\<close> event) or rejects is the element's answer,
  which arrives later.
\<close>

definition play :: "'v player \<Rightarrow> 'v player" where
  "play s = (if currentEpisode s = None then s else s\<lparr>playRequests := Suc (playRequests s)\<rparr>)"

definition pause :: "'v player \<Rightarrow> 'v player" where
  "pause s = (if \<not> paused (audio s) then s\<lparr>audio := (audio s)\<lparr>paused := True\<rparr>\<rparr> else s)"

text \<open>\<^verbatim>\<open>setTimeout(cb, delay)\<close>: the timer joins the queue, due \<open>delay\<close> ms from now.\<close>

definition setTimeout :: "callback \<Rightarrow> int \<Rightarrow> 'v player \<Rightarrow> 'v player" where
  "setTimeout cb delay s = s\<lparr>timers := timers s @ [(clock s + delay, cb)]\<rparr>"

definition tryPlay :: "'v player \<Rightarrow> 'v player" where
  "tryPlay s = (if readyState (audio s) \<ge> 3 then play s else setTimeout TryPlay 100 s)"

text \<open>The one-shot \<^verbatim>\<open>canplay\<close> listener number \<open>i\<close>: it removes itself and plays.\<close>

definition onCanPlay :: "nat \<Rightarrow> 'v player \<Rightarrow> 'v player" where
  "onCanPlay i s = play (s\<lparr>canplayListeners := removeAll i (canplayListeners s)\<rparr>)"

text \<open>The body of the ten-second timeout of \<^verbatim>\<open>waitForReadyAndPlay\<close>.\<close>

definition loadTimeout :: "nat \<Rightarrow> 'v player \<Rightarrow> 'v player" where
  "loadTimeout i s =
     (let s1 = s\<lparr>canplayListeners := removeAll i (canplayListeners s)\<rparr>
      in if readyState (audio s1) < 3 then
           announceToScreenReader (Say ''Episode loading timeout. Press play to try again.'')
             (setLoadingState False s1)
         else s1)"

definition waitForReadyAndPlay :: "'v player \<Rightarrow> 'v player" where
  "waitForReadyAndPlay s =
     (let s1 = tryPlay s;
          i = nextListener s1;
          s2 = s1\<lparr>canplayListeners := canplayListeners s1 @ [i], nextListener := Suc i\<rparr>
      in setTimeout (LoadTimeout i) 10000 s2)"

text \<open>
  \<^verbatim>\<open>audio.load()\<close> restarts the element's resource selection: nothing is buffered, the
  duration is unknown, the position is 0 and the element is paused.
\<close>

definition audio_load :: "audio_element \<Rightarrow> audio_element" where
  "audio_load a = a\<lparr>paused := True, au_currentTime := 0, au_duration := NaN, readyState := 0\<rparr>"

text \<open>
  \<^verbatim>\<open>onError(error)\<close> for a thrown error (an object without \<^verbatim>\<open>target\<close>, so the branch on
  the media error code is not taken): the loading state is left, \<^verbatim>\<open>isPlaying\<close> is
  cleared, and the error's message, or the default message when it is empty, is
  announced.
\<close>

definition onError :: "error \<Rightarrow> 'v player \<Rightarrow> 'v player" where
  "onError err s =
     announceToScreenReader
       (Say (if message err \<noteq> [] then message err else ''Unable to play this episode''))
       ((setLoadingState False s)\<lparr>isPlaying := False\<rparr>)"

text \<open>
  \<^verbatim>\<open>loadEpisode(episode, podcastName, autoPlay)\<close> in a browser \<open>mm\<close>: the error thrown, if
  any, and the state after the call. Inside the \<^verbatim>\<open>try\<close> block the one statement that can
  throw is \<^verbatim>\<open>updatePlayerUI\<close>, through \<^verbatim>\<open>updateMediaSession\<close>, after it has written the
  labels; the \<^verbatim>\<open>catch\<close> branch then leaves the loading state, calls \<^verbatim>\<open>onError\<close> and
  rethrows the error it caught. (The writes to the media element, \<^verbatim>\<open>showPlayer\<close>,
  \<^verbatim>\<open>saveCurrentEpisode\<close>, which swallows a storage failure, the announcements and
  \<^verbatim>\<open>waitForReadyAndPlay\<close> do not throw.)
\<close>

definition loadEpisode ::
  "(string \<Rightarrow> string option) \<Rightarrow> episode option \<Rightarrow> string \<Rightarrow> bool \<Rightarrow> 'v player
     \<Rightarrow> error option \<times> 'v player" where
  "loadEpisode mm episode podcastName autoPlay s =
     (case episode of
        None \<Rightarrow> (Some (Error ''Invalid episode data''), s)
      | Some e \<Rightarrow>
          if audioUrl e = [] then (Some (Error ''Invalid episode data''), s)
          else
            let s1 = s\<lparr>currentEpisode := Some e\<rparr>;
                s2 = s1\<lparr>audio := (audio s1)\<lparr>paused := True\<rparr>\<rparr>;
                s3 = s2\<lparr>audio := (audio s2)\<lparr>au_currentTime := 0\<rparr>\<rparr>;
                s4 = setLoadingState True s3;
                s5 = s4\<lparr>audio := audio_load ((audio s4)\<lparr>src := audioUrl e\<rparr>)\<rparr>;
                s5' = updatePlayerUI e podcastName s5
            in case updateMediaSession mm e of
                 Some err \<Rightarrow> (Some err, onError err (setLoadingState False s5'))
               | None \<Rightarrow>
                   let s6 = showPlayer s5';
                       s7 = saveCurrentEpisode s6
                   in if autoPlay then
                        (None, waitForReadyAndPlay
                           (announceToScreenReader (Say (''Loading episode: '' @ title e)) s7))
                      else
                        (None, announceToScreenReader
                           (Say (''Loaded episode: '' @ title e @ ''. Press play to start.'')) s7))"

text \<open>\<^verbatim>\<open>this.audio.duration || 0\<close>, as an upper bound for \<^verbatim>\<open>Math.min\<close>: \<^verbatim>\<open>NaN\<close> and 0 are
  falsy and give 0; \<^verbatim>\<open>Infinity\<close> bounds nothing.\<close>

datatype bound = Finite real | Unbounded

fun duration_or_0 :: "jsnum \<Rightarrow> bound" where
  "duration_or_0 NaN = Finite 0"
| "duration_or_0 (Num d) = (if d = 0 then Finite 0 else Finite d)"
| "duration_or_0 Infinity = Unbounded"

fun math_min :: "bound \<Rightarrow> real \<Rightarrow> real" where
  "math_min (Finite d) t = min d t"
| "math_min Unbounded t = t"

text \<open>The skip operations record the position they assign to \<^verbatim>\<open>audio.currentTime\<close>.\<close>

definition skipBack :: "real \<Rightarrow> 'v player \<Rightarrow> 'v player" where
  "skipBack seconds s =
     (if currentEpisode s = None then s
      else
        let newTime = max 0 (au_currentTime (audio s) - seconds)
        in announceToScreenReader (SkippedBack seconds)
             (s\<lparr>audio := (audio s)\<lparr>au_currentTime := newTime\<rparr>\<rparr>))"

definition skipForward :: "real \<Rightarrow> 'v player \<Rightarrow> 'v player" where
  "skipForward seconds s =
     (if currentEpisode s = None then s
      else
        let newTime = math_min (duration_or_0 (au_duration (audio s)))
                        (au_currentTime (audio s) + seconds)
        in announceToScreenReader (SkippedForward seconds)
             (s\<lparr>audio := (audio s)\<lparr>au_currentTime := newTime\<rparr>\<rparr>))"

text \<open>The \<^verbatim>\<open>timeupdate\<close> handler: with a known, non-zero duration it mirrors the position
  and persists it.\<close>

definition onTimeUpdate :: "'v player \<Rightarrow> 'v player" where
  "onTimeUpdate s =
     (case au_duration (audio s) of
        NaN \<Rightarrow> s
      | Num d \<Rightarrow>
          if d = 0 then s
          else savePlaybackPosition
                 (s\<lparr>currentTime := au_currentTime (audio s),
                    progressBar := au_currentTime (audio s) / d * 100\<rparr>)
      | Infinity \<Rightarrow>
          savePlaybackPosition (s\<lparr>currentTime := au_currentTime (audio s), progressBar := 0\<rparr>))"

text \<open>\<^verbatim>\<open>loadSavedState()\<close>, run once by the constructor. \<^verbatim>\<open>24 * 60 * 60 * 1000\<close> is
  86400000. The record it reads was written by \<^verbatim>\<open>saveCurrentEpisode\<close>, which
  \<^verbatim>\<open>loadEpisode\<close> reaches only after \<^verbatim>\<open>updatePlayerUI\<close> has returned for that episode, so
  the media-session step is taken to succeed on it again.\<close>

definition loadSavedState :: "'v player \<Rightarrow> 'v player" where
  "loadSavedState s =
     (case loadFromLocalStorage ''currentEpisode'' (localStorage s) of
        Some (CurrentEpisodeRec (Some e) ts) \<Rightarrow>
          if clock s - ts < 24 * 60 * 60 * 1000 then
            let s1 = showPlayer (updatePlayerUI e ''Previously Played'' s);
                s2 = s1\<lparr>currentEpisode := Some e\<rparr>
            in (case loadFromLocalStorage ''playbackPosition'' (localStorage s2) of
                  Some (PlaybackPositionRec g pos pts) \<Rightarrow>
                    if g = guid e then
                      if clock s2 - pts < 24 * 60 * 60 * 1000 \<and> pos > 0 then
                        s2\<lparr>audio := (audio s2)\<lparr>au_currentTime := pos\<rparr>\<rparr>
                      else s2
                    else s2
                | _ \<Rightarrow> s2)
          else s
      | _ \<Rightarrow> s)"

text \<open>The constructor: a fresh player over the given storage at clock reading \<open>t\<close>, then
  \<^verbatim>\<open>loadSavedState()\<close>.\<close>

definition blank_player :: "'v storage \<Rightarrow> int \<Rightarrow> 'v player" where
  "blank_player ls t =
     \<lparr>audio = \<lparr>src = [], paused = True, au_currentTime = 0, au_duration = NaN, readyState = 0\<rparr>,
      currentEpisode = None, isPlaying = False, currentTime = 0, duration = Num 0,
      loading = False, episodeTitle = [], episodePodcast = [], progressBar = 0,
      playerShown = False, announcements = [], localStorage = ls, clock = t, timers = [],
      canplayListeners = [], nextListener = 0, playRequests = 0\<rparr>"

definition new_AudioPlayer :: "'v storage \<Rightarrow> int \<Rightarrow> 'v player" where
  "new_AudioPlayer ls t = loadSavedState (blank_player ls t)"

subsection \<open>The event loop around \<^verbatim>\<open>waitForReadyAndPlay\<close>\<close>

text \<open>
  Timers fire by due time, and among equal due times in the order of their creation. The
  media element's buffering level is the environment: \<open>rs t\<close> is \<^verbatim>\<open>audio.readyState\<close>
  at time \<open>t\<close>. Firing a timer advances the clock to its due time, refreshes the ready
  state and runs the closure. The clock is ideal: a timer fires exactly when due.
\<close>

fun next_timer :: "(int \<times> callback) list \<Rightarrow> (int \<times> callback) option" where
  "next_timer [] = None"
| "next_timer (x # xs) =
     (case next_timer xs of
        None \<Rightarrow> Some x
      | Some y \<Rightarrow> if fst y < fst x then Some y else Some x)"

fun fire :: "callback \<Rightarrow> 'v player \<Rightarrow> 'v player" where
  "fire TryPlay s = tryPlay s"
| "fire (LoadTimeout i) s = loadTimeout i s"

definition run_timer :: "(int \<Rightarrow> nat) \<Rightarrow> int \<times> callback \<Rightarrow> 'v player \<Rightarrow> 'v player" where
  "run_timer rs x s =
     (let t = max (clock s) (fst x)
      in fire (snd x)
           (s\<lparr>timers := remove1 x (timers s), clock := t,
              audio := (audio s)\<lparr>readyState := rs t\<rparr>\<rparr>))"

text \<open>Run every timer due at or before \<open>T\<close>, at most \<open>fuel\<close> of them; \<open>None\<close> when the
  fuel runs out with a timer still due.\<close>

fun run_until :: "(int \<Rightarrow> nat) \<Rightarrow> int \<Rightarrow> nat \<Rightarrow> 'v player \<Rightarrow> 'v player option" where
  "run_until rs T 0 s =
     (case next_timer (timers s) of
        None \<Rightarrow> Some s
      | Some x \<Rightarrow> if fst x \<le> T then None else Some s)"
| "run_until rs T (Suc n) s =
     (case next_timer (timers s) of
        None \<Rightarrow> Some s
      | Some x \<Rightarrow> if fst x \<le> T then run_until rs T n (run_timer rs x s) else Some s)"

text \<open>C1 reads "the losing path of the readiness race is cancelled" as: no poll timer is
  pending and no \<^verbatim>\<open>canplay\<close> listener is registered.\<close>

definition race_cancelled :: "'v player \<Rightarrow> bool" where
  "race_cancelled s = (canplayListeners s = [] \<and> TryPlay \<notin> snd ` set (timers s))"

subsection \<open>The feed parser (class PodcastAPI)\<close>

text \<open>
  A DOM tree. The tag of an element is the name that a type selector compares, which in
  an XML document is the element's local name: the selector \<^verbatim>\<open>duration\<close> selects an
  element written \<^verbatim>\<open><itunes:duration>\<close> under a declared prefix (its tag here is
  \<^verbatim>\<open>duration\<close>), and the selector \<^verbatim>\<open>itunes\:duration\<close> selects only an element whose
  local name is literally \<^verbatim>\<open>itunes:duration\<close>. A document is an element whose children are
  the top-level nodes, so its descendants include the root element.
\<close>

datatype node = Element string "(string \<times> string) list" "node list" | Text string

text \<open>All descendants in document order (the node itself excluded), as
  \<^verbatim>\<open>querySelector\<close> and \<^verbatim>\<open>querySelectorAll\<close> visit them.\<close>

fun descendants :: "node \<Rightarrow> node list" where
  "descendants (Element t as cs) = concat (map (\<lambda>c. c # descendants c) cs)"
| "descendants (Text x) = []"

fun textContent :: "node \<Rightarrow> string" where
  "textContent (Element t as cs) = concat (map textContent cs)"
| "textContent (Text x) = x"

fun getAttribute :: "node \<Rightarrow> string \<Rightarrow> string option" where
  "getAttribute (Element t as cs) a = map_of as a"
| "getAttribute (Text x) a = None"

text \<open>The selectors the program uses: a tag, \<^verbatim>\<open>tag[attr="value"]\<close> and
  \<^verbatim>\<open>tag[attr^="prefix"]\<close>.\<close>

datatype selector = Tag string | TagAttrEq string string string | TagAttrPrefix string string string

fun matches :: "selector \<Rightarrow> node \<Rightarrow> bool" where
  "matches sel (Text x) = False"
| "matches (Tag t) (Element u as cs) = (u = t)"
| "matches (TagAttrEq t a v) (Element u as cs) = (u = t \<and> map_of as a = Some v)"
| "matches (TagAttrPrefix t a v) (Element u as cs) =
     (u = t \<and> (case map_of as a of None \<Rightarrow> False | Some w \<Rightarrow> take (length v) w = v))"

definition querySelector :: "selector \<Rightarrow> node \<Rightarrow> node option" where
  "querySelector sel n = find (matches sel) (descendants n)"

definition querySelectorAll :: "selector \<Rightarrow> node \<Rightarrow> node list" where
  "querySelectorAll sel n = filter (matches sel) (descendants n)"

text \<open>
  \<^verbatim>\<open>String.prototype.trim\<close>. A \<open>char\<close> is a code unit below \<open>0x100\<close>; of the white space
  and line terminators that \<^verbatim>\<open>trim\<close> strips, those in this range are tab, line feed,
  vertical tab, form feed, carriage return, space and the no-break space \<open>0xA0\<close>.
\<close>

definition isSpace :: "char \<Rightarrow> bool" where
  "isSpace c =
     (c \<in> set [CHR 0x09, CHR 0x0A, CHR 0x0B, CHR 0x0C, CHR 0x0D, CHR 0x20, CHR 0xA0])"

definition trim :: "string \<Rightarrow> string" where
  "trim x = rev (dropWhile isSpace (rev (dropWhile isSpace x)))"

definition getTextContent :: "node \<Rightarrow> selector \<Rightarrow> string" where
  "getTextContent element sel =
     (case querySelector sel element of None \<Rightarrow> [] | Some n \<Rightarrow> trim (textContent n))"

text \<open>The outcome of \<^verbatim>\<open>await fetch(url)\<close>: a rejection with its message, or a response
  with its \<^verbatim>\<open>ok\<close> flag, status and body text.\<close>

datatype fetch_result = Rejected string | Response bool nat string

text \<open>
  The browser capabilities the parser calls: \<open>htmlText\<close> is the text content of a
  \<^verbatim>\<open>div\<close> whose \<^verbatim>\<open>innerHTML\<close> is the argument, \<open>dateParse\<close> is the time value of
  \<^verbatim>\<open>new Date(text)\<close> (\<open>None\<close> for an invalid date), \<open>parseFromString\<close> is
  \<^verbatim>\<open>DOMParser.parseFromString(text, 'text/xml')\<close>, which answers a document holding a
  \<^verbatim>\<open>parsererror\<close> element when the text is not well-formed XML, \<open>isValidUrl\<close> says
  whether \<^verbatim>\<open>new URL(text)\<close> succeeds, \<open>btoa\<close> is the base-64 encoder and \<open>fetch\<close> the
  network.
\<close>

record browser =
  htmlText :: "string \<Rightarrow> string"
  dateParse :: "string \<Rightarrow> int option"
  parseFromString :: "string \<Rightarrow> node"
  isValidUrl :: "string \<Rightarrow> bool"
  btoa :: "string \<Rightarrow> string"
  fetch :: "string \<Rightarrow> fetch_result"

definition stripHtml :: "browser \<Rightarrow> string \<Rightarrow> string" where
  "stripHtml br html = (if html = [] then [] else htmlText br html)"

definition parseXMLFromString :: "browser \<Rightarrow> string \<Rightarrow> node option" where
  "parseXMLFromString br xmlString =
     (let xmlDoc = parseFromString br xmlString
      in case querySelector (Tag ''parsererror'') xmlDoc of
           Some parserError \<Rightarrow> None
         | None \<Rightarrow> Some xmlDoc)"

text \<open>
  \<^verbatim>\<open>parseDuration\<close>. \<^verbatim>\<open>/^\d+$/\<close> holds of a non-empty string of digits. The two other
  patterns are not anchored: \<^verbatim>\<open>test\<close> and \<^verbatim>\<open>match\<close> search for the leftmost position at
  which the pattern matches, and each \<^verbatim>\<open>\d+\<close> takes the longest run of digits (a shorter
  run is followed by a digit, never by the colon, so backtracking finds nothing more).
  \<^verbatim>\<open>parseInt(digits, 10)\<close> is the double nearest to the decimal value, and the products
  and sums are those of the doubles.
\<close>

definition isDigit :: "char \<Rightarrow> bool" where
  "isDigit c = (c \<in> set ''0123456789'')"

definition digitValue :: "char \<Rightarrow> int" where
  "digitValue c = int (of_char c) - 48"

text \<open>The integer that a string of digits denotes.\<close>

definition decimal :: "string \<Rightarrow> int" where
  "decimal ds = foldl (\<lambda>a c. a * 10 + digitValue c) 0 ds"

text \<open>The number of binary digits of a natural number.\<close>

function bits :: "nat \<Rightarrow> nat" where
  "bits n = (if n = 0 then 0 else Suc (bits (n div 2)))"
  by pat_completeness auto
termination
  by (relation "measure id") auto

declare bits.simps [simp del]

text \<open>
  The double nearest to a non-negative integer \<open>n\<close>, ties to the even significand: below
  \<open>2^53\<close> every integer is a double; above, the significand keeps the 53 leading binary
  digits, and what reaches \<open>2^1024\<close> is \<^verbatim>\<open>Infinity\<close>.
\<close>

definition to_double :: "int \<Rightarrow> whole" where
  "to_double n =
     (if n < 2 ^ 53 then Whole n
      else
        let e = bits (nat n) - 53;
            q = n div 2 ^ e;
            r = n mod 2 ^ e;
            q' = (if 2 * r > 2 ^ e \<or> (2 * r = 2 ^ e \<and> odd q) then q + 1 else q)
        in if q' * 2 ^ e \<ge> 2 ^ 1024 then Overflow else Whole (q' * 2 ^ e))"

text \<open>The product of a double by an integer constant, and the sum of two doubles, on
  non-negative integer values: the exact result, rounded.\<close>

fun js_mul :: "whole \<Rightarrow> int \<Rightarrow> whole" where
  "js_mul (Whole a) k = to_double (a * k)"
| "js_mul Overflow k = Overflow"

fun js_add :: "whole \<Rightarrow> whole \<Rightarrow> whole" where
  "js_add (Whole a) (Whole b) = to_double (a + b)"
| "js_add Overflow y = Overflow"
| "js_add x Overflow = Overflow"

text \<open>\<^verbatim>\<open>parseInt(ds, 10)\<close> on a string of digits: the double nearest to its value, which
  the language prescribes up to 20 significant digits and permits beyond.\<close>

definition parseInt10 :: "string \<Rightarrow> whole" where
  "parseInt10 ds = to_double (decimal ds)"

definition numberPattern_test :: "string \<Rightarrow> bool" where
  "numberPattern_test str = (str \<noteq> [] \<and> list_all isDigit str)"

text \<open>\<^verbatim>\<open>(\d+):(\d+)\<close> matched at the start of \<open>str\<close>: the two groups.\<close>

definition match_shortPattern :: "string \<Rightarrow> (string \<times> string) option" where
  "match_shortPattern str =
     (let m = takeWhile isDigit str; r = dropWhile isDigit str in
      if m = [] then None
      else case r of
             [] \<Rightarrow> None
           | c # r1 \<Rightarrow>
               if c \<noteq> CHR '':'' then None
               else let sec = takeWhile isDigit r1 in
                    if sec = [] then None else Some (m, sec))"

text \<open>\<^verbatim>\<open>(\d+):(\d+):(\d+)\<close> matched at the start of \<open>str\<close>: the three groups.\<close>

definition match_timePattern :: "string \<Rightarrow> (string \<times> string \<times> string) option" where
  "match_timePattern str =
     (let h = takeWhile isDigit str; r = dropWhile isDigit str in
      if h = [] then None
      else case r of
             [] \<Rightarrow> None
           | c # r1 \<Rightarrow>
               if c \<noteq> CHR '':'' then None
               else (case match_shortPattern r1 of
                       None \<Rightarrow> None
                     | Some (m, sec) \<Rightarrow> Some (h, m, sec)))"

text \<open>The leftmost match of an unanchored pattern.\<close>

fun regex_search :: "(string \<Rightarrow> 'a option) \<Rightarrow> string \<Rightarrow> 'a option" where
  "regex_search m [] = m []"
| "regex_search m (c # cs) =
     (case m (c # cs) of Some g \<Rightarrow> Some g | None \<Rightarrow> regex_search m cs)"

definition parseDuration :: "string \<Rightarrow> whole" where
  "parseDuration durationStr =
     (if durationStr = [] then Whole 0
      else if numberPattern_test durationStr then parseInt10 durationStr
      else case regex_search match_timePattern durationStr of
             Some (hours, minutes, seconds) \<Rightarrow>
               js_add (js_add (js_mul (parseInt10 hours) 3600) (js_mul (parseInt10 minutes) 60))
                 (parseInt10 seconds)
           | None \<Rightarrow>
               (case regex_search match_shortPattern durationStr of
                  Some (minutes, seconds) \<Rightarrow>
                    js_add (js_mul (parseInt10 minutes) 60) (parseInt10 seconds)
                | None \<Rightarrow> Whole 0))"

text \<open>\<^verbatim>\<open>a || b\<close> on strings that may be \<^verbatim>\<open>null\<close>: the first when it is neither
  \<^verbatim>\<open>null\<close> nor empty.\<close>

fun truthy :: "string option \<Rightarrow> bool" where
  "truthy None = False"
| "truthy (Some x) = (x \<noteq> [])"

definition getImageUrl :: "node \<Rightarrow> string" where
  "getImageUrl item =
     (let imageUrl1 =
            (case querySelector (Tag ''itunes:image'') item of
               Some itunesImage \<Rightarrow> getAttribute itunesImage ''href''
             | None \<Rightarrow> Some []);
          imageUrl2 =
            (if \<not> truthy imageUrl1 then
               (case querySelector (TagAttrEq ''media:content'' ''medium'' ''image'') item of
                  Some mediaContent \<Rightarrow> getAttribute mediaContent ''url''
                | None \<Rightarrow> imageUrl1)
             else imageUrl1);
          imageUrl3 =
            (if \<not> truthy imageUrl2 then
               (case querySelector (TagAttrPrefix ''enclosure'' ''type'' ''image'') item of
                  Some enclosure \<Rightarrow> getAttribute enclosure ''url''
                | None \<Rightarrow> imageUrl2)
             else imageUrl2)
      in case imageUrl3 of None \<Rightarrow> [] | Some u \<Rightarrow> u)"

text \<open>\<^verbatim>\<open>parseEpisodeItem(item)\<close>: \<open>None\<close> is the \<^verbatim>\<open>null\<close> it returns for an item without
  title or audio locator. The test is made on the trimmed text of the title element; the
  title stored is \<^verbatim>\<open>stripHtml(title)\<close>.\<close>

definition parseEpisodeItem :: "browser \<Rightarrow> node \<Rightarrow> episode option" where
  "parseEpisodeItem br item =
     (let title0 = getTextContent item (Tag ''title'');
          description0 =
            (if getTextContent item (Tag ''description'') \<noteq> []
             then getTextContent item (Tag ''description'')
             else getTextContent item (Tag ''itunes:summary''));
          pubDate0 = getTextContent item (Tag ''pubDate'');
          guid0 = getTextContent item (Tag ''guid'');
          enclosure = querySelector (Tag ''enclosure'') item;
          audioUrl0 = (case enclosure of Some n \<Rightarrow> getAttribute n ''url'' | None \<Rightarrow> Some [])
      in if title0 = [] \<or> \<not> truthy audioUrl0 then None
         else
           let duration0 =
                 (if getTextContent item (Tag ''itunes:duration'') \<noteq> []
                  then getTextContent item (Tag ''itunes:duration'')
                  else getTextContent item (Tag ''duration''));
               url = (case audioUrl0 of Some u \<Rightarrow> u | None \<Rightarrow> [])
           in Some \<lparr>title = stripHtml br title0,
                    description = stripHtml br description0,
                    audioUrl = url,
                    pubDate = pubDate0,
                    ep_duration = parseDuration duration0,
                    artwork = getImageUrl item,
                    guid = (if guid0 \<noteq> [] then guid0 else url),
                    mime = (case enclosure of
                              Some n \<Rightarrow> getAttribute n ''type''
                            | None \<Rightarrow> Some ''audio/mpeg'')\<rparr>)"

text \<open>
  The comparator \<^verbatim>\<open>(a, b) => new Date(b.pubDate) - new Date(a.pubDate)\<close>; \<open>None\<close> is the
  \<^verbatim>\<open>NaN\<close> it yields when either date is invalid.
\<close>

definition pubDate_compare :: "browser \<Rightarrow> episode \<Rightarrow> episode \<Rightarrow> int option" where
  "pubDate_compare br a b =
     (case dateParse br (pubDate b) of
        None \<Rightarrow> None
      | Some tb \<Rightarrow> (case dateParse br (pubDate a) of None \<Rightarrow> None | Some ta \<Rightarrow> Some (tb - ta)))"

text \<open>
  \<^verbatim>\<open>Array.prototype.sort(cmp)\<close> is a stable sort; a \<^verbatim>\<open>NaN\<close> from the comparator counts
  as 0. For a comparator that orders the elements consistently, every stable sort gives
  the list computed by this insertion sort; for an inconsistent one (some dates invalid)
  the language leaves the order to the implementation, and the model fixes one.
\<close>

definition sorts_before_or_equal :: "('a \<Rightarrow> 'a \<Rightarrow> int option) \<Rightarrow> 'a \<Rightarrow> 'a \<Rightarrow> bool" where
  "sorts_before_or_equal cmp x y = (case cmp x y of None \<Rightarrow> True | Some v \<Rightarrow> v \<le> 0)"

fun sort_insert :: "('a \<Rightarrow> 'a \<Rightarrow> int option) \<Rightarrow> 'a \<Rightarrow> 'a list \<Rightarrow> 'a list" where
  "sort_insert cmp x [] = [x]"
| "sort_insert cmp x (y # ys) =
     (if sorts_before_or_equal cmp x y then x # y # ys else y # sort_insert cmp x ys)"

definition array_sort :: "('a \<Rightarrow> 'a \<Rightarrow> int option) \<Rightarrow> 'a list \<Rightarrow> 'a list" where
  "array_sort cmp xs = foldr (sort_insert cmp) xs []"

text \<open>The \<^verbatim>\<open>forEach\<close> loop of \<^verbatim>\<open>parseEpisodesFromXML\<close> followed by the sort, on the list
  of \<^verbatim>\<open>item\<close> elements. \<^verbatim>\<open>parseEpisodeItem\<close> throws nothing in this model, so the
  \<^verbatim>\<open>catch\<close> of the loop body is not entered.\<close>

definition parseItems :: "browser \<Rightarrow> node list \<Rightarrow> episode list" where
  "parseItems br items =
     array_sort (pubDate_compare br) (List.map_filter (parseEpisodeItem br) items)"

definition parseEpisodesFromXML :: "browser \<Rightarrow> node \<Rightarrow> episode list" where
  "parseEpisodesFromXML br xmlDoc = parseItems br (querySelectorAll (Tag ''item'') xmlDoc)"

text \<open>\<^verbatim>\<open>String.prototype.includes\<close>.\<close>

fun str_includes :: "string \<Rightarrow> string \<Rightarrow> bool" where
  "str_includes [] needle = (needle = [])"
| "str_includes (c # cs) needle = (take (length needle) (c # cs) = needle \<or> str_includes cs needle)"

text \<open>The decimal numeral of a status code, as the template string prints it.\<close>

function toString :: "nat \<Rightarrow> string" where
  "toString n =
     (if n < 10 then [char_of (48 + n)] else toString (n div 10) @ [char_of (48 + n mod 10)])"
  by pat_completeness auto
termination
  by (relation "measure id") auto

text \<open>
  The body of the \<^verbatim>\<open>try\<close> block of \<^verbatim>\<open>getPodcastEpisodes\<close>: the message of the error
  thrown, or the episodes and the storage after caching them at clock reading \<open>t1\<close>.
\<close>

definition fetch_and_parse ::
  "browser \<Rightarrow> int \<Rightarrow> string \<Rightarrow> string \<Rightarrow> (episode list) storage
     \<Rightarrow> string + episode list \<times> (episode list) storage" where
  "fetch_and_parse br t1 feedUrl cacheKey ls =
     (case fetch br feedUrl of
        Rejected msg \<Rightarrow> Inl msg
      | Response ok status body \<Rightarrow>
          if \<not> ok then Inl (''HTTP error! status: '' @ toString status)
          else (case parseXMLFromString br body of
                  None \<Rightarrow> Inl ''Failed to parse RSS feed''
                | Some xmlDoc \<Rightarrow>
                    let episodes = parseEpisodesFromXML br xmlDoc
                    in Inr (episodes, setCachedData t1 cacheKey episodes ls)))"

text \<open>
  \<^verbatim>\<open>getPodcastEpisodes(feedUrl)\<close>, with the cache read at clock reading \<open>t0\<close> and the cache
  write at \<open>t1\<close>: the error thrown or the list returned, and the storage after the call.
\<close>

definition getPodcastEpisodes ::
  "browser \<Rightarrow> int \<Rightarrow> int \<Rightarrow> string \<Rightarrow> (episode list) storage
     \<Rightarrow> (error + episode list) \<times> (episode list) storage" where
  "getPodcastEpisodes br t0 t1 feedUrl ls =
     (if feedUrl = [] \<or> \<not> isValidUrl br feedUrl
      then (Inl (Error ''Valid feed URL is required''), ls)
      else
        let cacheKey = ''episodes_'' @ btoa br feedUrl;
            cached = getCachedData t0 cacheKey 1800000 ls
        in case fst cached of
             Some episodes \<Rightarrow> (Inr episodes, snd cached)
           | None \<Rightarrow>
               (case fetch_and_parse br t1 feedUrl cacheKey (snd cached) of
                  Inr r \<Rightarrow> (Inr (fst r), snd r)
                | Inl msg \<Rightarrow>
                    if str_includes msg ''CORS'' \<or> str_includes msg ''blocked''
                    then (Inl (Error ''Unable to load episodes due to CORS restrictions. This podcast may not support direct streaming.''),
                          snd cached)
                    else (Inl (Error ''Failed to load episodes. Please try again later.''),
                          snd cached)))"

subsection \<open>Concrete inputs used for evaluation\<close>

definition demo_episode :: episode where
  "demo_episode =
     \<lparr>title = ''Pilot'', description = ''First show'', audioUrl = ''http://example.org/a.mp3'',
      pubDate = ''2024-03-01'', ep_duration = Whole 3723, artwork = [], guid = ''g-1'',
      mime = Some ''audio/mpeg''\<rparr>"

text \<open>A player with \<open>demo_episode\<close> loaded, a track of 100 seconds and the position at
  \<open>pos\<close>.\<close>

definition demo_loaded :: "real \<Rightarrow> nat player" where
  "demo_loaded pos =
     (blank_player Map.empty 0)
       \<lparr>audio := \<lparr>src = ''http://example.org/a.mp3'', paused = True, au_currentTime = pos,
                   au_duration = Num 100, readyState = 4\<rparr>,
        currentEpisode := Some demo_episode\<rparr>"

text \<open>Storage holding a \<^verbatim>\<open>currentEpisode\<close> record written at \<open>t1\<close> and a
  \<^verbatim>\<open>playbackPosition\<close> record for episode \<open>g\<close> at position \<open>p\<close> written at \<open>t2\<close>.\<close>

definition demo_storage :: "int \<Rightarrow> string \<Rightarrow> real \<Rightarrow> int \<Rightarrow> nat storage" where
  "demo_storage t1 g p t2 =
     [''currentEpisode'' \<mapsto> CurrentEpisodeRec (Some demo_episode) t1,
      ''playbackPosition'' \<mapsto> PlaybackPositionRec g p t2]"

text \<open>Two media engines: one that never buffers anything, and one that stays empty through
  the first ten seconds and is fully buffered afterwards.\<close>

definition never_ready :: "int \<Rightarrow> nat" where
  "never_ready t = 0"

definition ready_after_timeout :: "int \<Rightarrow> nat" where
  "ready_after_timeout t = (if t > 10000 then 4 else 0)"

text \<open>A browser whose \<^verbatim>\<open>MediaMetadata\<close> rejects the artwork source \<^verbatim>\<open>http://\<close>, which
  is no URL, and accepts every other.\<close>

definition demo_mediaMetadata :: "string \<Rightarrow> string option" where
  "demo_mediaMetadata u = (if u = ''http://'' then Some ''Invalid image URL'' else None)"

text \<open>The state right after \<^verbatim>\<open>loadEpisode(demo_episode, 'Show', true)\<close> on a fresh player
  at time 0.\<close>

definition demo_autoplay :: "nat player" where
  "demo_autoplay =
     snd (loadEpisode demo_mediaMetadata (Some demo_episode) ''Show'' True
            (blank_player Map.empty 0))"

text \<open>What the timeout of listener \<open>i\<close>, due at \<open>D\<close>, leaves of a state \<open>s\<close> whose engine
  was never ready: \<open>s'\<close> is timed out.\<close>

definition timed_out :: "'v player \<Rightarrow> 'v player \<Rightarrow> nat \<Rightarrow> int \<Rightarrow> bool" where
  "timed_out s s' i D =
     (timers s' = [(D + 100, TryPlay)] \<and> clock s' = D \<and> \<not> loading s'
      \<and> playRequests s' = playRequests s
      \<and> canplayListeners s' = removeAll i (canplayListeners s)
      \<and> announcements s' =
          announcements s @ [Say ''Episode loading timeout. Press play to try again.'']
      \<and> currentEpisode s' = currentEpisode s)"

text \<open>
  A stand-in browser for evaluation. Its text extraction drops everything between
  \<^verbatim>\<open><\<close> and \<^verbatim>\<open>>\<close>, which is what a browser answers on the fragments used below (no
  entities, no comments); its date parser knows three ISO dates (the values are those of
  \<^verbatim>\<open>Date.parse\<close>); its XML parser knows one well-formed feed without items and reports
  a parser error on any other text; its network serves that feed under one address and a
  truncated text, not well-formed, under every other.
\<close>

fun strip_tags :: "bool \<Rightarrow> string \<Rightarrow> string" where
  "strip_tags inTag [] = []"
| "strip_tags inTag (c # cs) =
     (if inTag then (if c = CHR ''>'' then strip_tags False cs else strip_tags True cs)
      else (if c = CHR ''<'' then strip_tags True cs else c # strip_tags False cs))"

definition demo_dateParse :: "string \<Rightarrow> int option" where
  "demo_dateParse =
     map_of [(''2024-01-01'', 1704067200000), (''2024-02-01'', 1706745600000),
             (''2024-03-01'', 1709251200000)]"

definition parsererror_doc :: node where
  "parsererror_doc =
     Element ''#document'' [] [Element ''parsererror'' [] [Text ''XML parsing failed'']]"

definition feed_doc :: "node list \<Rightarrow> node" where
  "feed_doc items =
     Element ''#document'' []
       [Element ''rss'' []
          [Element ''channel'' [] (Element ''title'' [] [Text ''Show''] # items)]]"

text \<open>An item with a title, a publication date and, when \<open>u\<close> is given, an enclosure.\<close>

definition feed_item :: "string \<Rightarrow> string \<Rightarrow> string option \<Rightarrow> node" where
  "feed_item t d u =
     Element ''item'' []
       ([Element ''title'' [] [Text t], Element ''pubDate'' [] [Text d]] @
        (case u of
           None \<Rightarrow> []
         | Some url \<Rightarrow> [Element ''enclosure'' [(''url'', url), (''type'', ''audio/mpeg'')] []]))"

definition demo_browser :: browser where
  "demo_browser =
     \<lparr>htmlText = strip_tags False,
      dateParse = demo_dateParse,
      parseFromString =
        (\<lambda>x. if x = ''<rss><channel><title>Show</title></channel></rss>''
             then feed_doc [] else parsererror_doc),
      isValidUrl = (\<lambda>u. take 7 u = ''http://''),
      btoa = (\<lambda>u. u),
      fetch =
        (\<lambda>u. if u = ''http://example.org/empty.xml''
             then Response True 200 ''<rss><channel><title>Show</title></channel></rss>''
             else Response True 200 ''<rss><channel>'')\<rparr>"

text \<open>A feed whose three items are dated January, March and February 2024.\<close>

definition demo_feed :: node where
  "demo_feed =
     feed_doc
       [feed_item ''January'' ''2024-01-01'' (Some ''http://example.org/1.mp3''),
        feed_item ''March'' ''2024-03-01'' (Some ''http://example.org/3.mp3''),
        feed_item ''February'' ''2024-02-01'' (Some ''http://example.org/2.mp3'')]"

text \<open>A feed with an item whose title text is the markup \<^verbatim>\<open><br>\<close> (written
  \<^verbatim>\<open><title><![CDATA[<br>]]></title>\<close> in the feed), and an item without enclosure.\<close>

definition markup_feed :: node where
  "markup_feed =
     feed_doc
       [feed_item ''January'' ''2024-01-01'' (Some ''http://example.org/1.mp3''),
        feed_item ''<br>'' ''2024-03-01'' (Some ''http://example.org/3.mp3''),
        feed_item ''Notes only'' ''2024-02-01'' None]"

text \<open>The parsed publication time of an episode, and the order "most recent first".\<close>

definition pubTime :: "browser \<Rightarrow> episode \<Rightarrow> int" where
  "pubTime br e = (case dateParse br (pubDate e) of Some t \<Rightarrow> t | None \<Rightarrow> 0)"

definition dated :: "browser \<Rightarrow> episode \<Rightarrow> bool" where
  "dated br e = (dateParse br (pubDate e) \<noteq> None)"

definition newest_first :: "browser \<Rightarrow> episode list \<Rightarrow> bool" where
  "newest_first br es = sorted_wrt (\<lambda>a b. pubTime br b \<le> pubTime br a) es"

subsection \<open>The time-bounded cache\<close>

text \<open>
  C3 (as amended): a cache read at \<open>now\<close> of an entry stored at \<open>t\<close> returns absent and
  deletes the entry once \<open>now - t > maxAge\<close>, and returns the stored value with the
  storage untouched whenever \<open>now - t \<le> maxAge\<close>; the age \<open>now - t = maxAge\<close> is still a hit.
\<close>

theorem getCachedData_expiry:
  "getCachedData now key maxAge (setCachedData t key v ls) =
     (if now - t > maxAge then (None, (setCachedData t key v ls)(key := None))
      else (Some v, setCachedData t key v ls))
   \<and> (ls key = Some (CacheRec v t) \<and> now - t > maxAge \<longrightarrow>
        getCachedData now key maxAge ls = (None, ls(key := None)))
   \<and> (ls key = Some (CacheRec v t) \<and> now - t \<le> maxAge \<longrightarrow>
        getCachedData now key maxAge ls = (Some v, ls))
   \<and> (ls key = None \<longrightarrow> getCachedData now key maxAge ls = (None, ls))"
  by (simp add: getCachedData_def setCachedData_def)

theorem getCachedData_expiry_witness:
  "getCachedData 1001 ''k'' 1000 ([''k'' \<mapsto> CacheRec (7::nat) 0]) = (None, Map.empty)
   \<and> getCachedData 999 ''k'' 1000 ([''k'' \<mapsto> CacheRec (7::nat) 0])
       = (Some 7, [''k'' \<mapsto> CacheRec 7 0])
   \<and> getCachedData 5 ''other'' 1000 ([''k'' \<mapsto> CacheRec (7::nat) 0])
       = (None, [''k'' \<mapsto> CacheRec 7 0])"
  using getCachedData_expiry [of 1001 "''k''" 1000 0 "7::nat" "[''k'' \<mapsto> CacheRec (7::nat) 0]"]
        getCachedData_expiry [of 999 "''k''" 1000 0 "7::nat" "[''k'' \<mapsto> CacheRec (7::nat) 0]"]
        getCachedData_expiry [of 5 "''other''" 1000 0 "7::nat" "[''k'' \<mapsto> CacheRec (7::nat) 0]"]
  by (simp add: setCachedData_def)

text \<open>
  C3 as stated fails at the boundary: with \<open>maxAge = 1000\<close>, an entry stored at time 0 and
  read at time 1000 has age exactly \<open>maxAge\<close>; the spec's reading says absent and deleted,
  the code returns the value and keeps the entry.
\<close>

theorem getCachedData_boundary_counterexample:
  "getCachedData 1000 ''k'' 1000 ([''k'' \<mapsto> CacheRec (7::nat) 0])
     = (Some 7, [''k'' \<mapsto> CacheRec 7 0])
   \<and> \<not> ttl_read_as_specified 1000 ''k'' 1000 ([''k'' \<mapsto> CacheRec (7::nat) 0])"
  by (simp add: getCachedData_def ttl_read_as_specified_def)

subsection \<open>Loading an episode\<close>

text \<open>
  C8: \<^verbatim>\<open>loadEpisode(episode, podcastLabel, autoPlay)\<close> fails with the invalid-episode error
  exactly when \<open>episode\<close> is absent or its \<open>audioUrl\<close> is empty. For every other
  episode the call raises nothing, unless the browser's \<^verbatim>\<open>MediaMetadata\<close> rejects the
  artwork: then it rethrows that \<^verbatim>\<open>TypeError\<close>, which is not the invalid-episode error.
\<close>

theorem loadEpisode_invalid_iff:
  "(fst (loadEpisode mm episode podcastName autoPlay s) = Some (Error ''Invalid episode data''))
     = (case episode of None \<Rightarrow> True | Some e \<Rightarrow> audioUrl e = [])
   \<and> fst (loadEpisode mm episode podcastName autoPlay s)
     = (case episode of
          None \<Rightarrow> Some (Error ''Invalid episode data'')
        | Some e \<Rightarrow>
            if audioUrl e = [] then Some (Error ''Invalid episode data'')
            else if artwork e = [] then None
            else case mm (artwork e) of None \<Rightarrow> None | Some m \<Rightarrow> Some (TypeError m))"
  by (simp add: loadEpisode_def updateMediaSession_def Let_def split: option.split)

text \<open>Four calls: no episode, an episode without audio locator, a valid episode, and a
  valid episode whose artwork \<^verbatim>\<open>http://\<close> makes \<^verbatim>\<open>MediaMetadata\<close> throw; the last call fails
  after the episode has become the current one, with the error announced.\<close>

lemma loadEpisode_examples:
  "fst (loadEpisode demo_mediaMetadata None ''Show'' False (demo_loaded 42))
     = Some (Error ''Invalid episode data'')
   \<and> fst (loadEpisode demo_mediaMetadata (Some (demo_episode\<lparr>audioUrl := []\<rparr>)) ''Show'' False
            (demo_loaded 42)) = Some (Error ''Invalid episode data'')
   \<and> fst (loadEpisode demo_mediaMetadata (Some demo_episode) ''Show'' False (demo_loaded 42))
       = None
   \<and> fst (loadEpisode demo_mediaMetadata (Some (demo_episode\<lparr>artwork := ''http://''\<rparr>))
            ''Show'' False (demo_loaded 42)) = Some (TypeError ''Invalid image URL'')
   \<and> currentEpisode
        (snd (loadEpisode demo_mediaMetadata (Some (demo_episode\<lparr>artwork := ''http://''\<rparr>))
                ''Show'' False (demo_loaded 42)))
       = Some (demo_episode\<lparr>artwork := ''http://''\<rparr>)
   \<and> announcements
        (snd (loadEpisode demo_mediaMetadata (Some (demo_episode\<lparr>artwork := ''http://''\<rparr>))
                ''Show'' False (demo_loaded 42)))
       = [Say ''Invalid image URL'']
   \<and> \<not> loading
        (snd (loadEpisode demo_mediaMetadata (Some (demo_episode\<lparr>artwork := ''http://''\<rparr>))
                ''Show'' False (demo_loaded 42)))"
  by (simp add: loadEpisode_def updateMediaSession_def demo_mediaMetadata_def demo_episode_def
      demo_loaded_def blank_player_def onError_def setLoadingState_def announceToScreenReader_def
      updatePlayerUI_def audio_load_def Let_def)

text \<open>
  C10: a call of \<^verbatim>\<open>loadEpisode\<close> whose argument is absent or has an empty \<open>audioUrl\<close> raises
  before anything is written: the whole state after the call is the state before it, so
  the current episode, the media source and the persisted \<^verbatim>\<open>currentEpisode\<close> and
  \<^verbatim>\<open>playbackPosition\<close> records are unchanged.
\<close>

theorem loadEpisode_invalid_atomic:
  "(case episode of None \<Rightarrow> True | Some e \<Rightarrow> audioUrl e = []) \<Longrightarrow>
     snd (loadEpisode mm episode podcastName autoPlay s) = s
     \<and> currentEpisode (snd (loadEpisode mm episode podcastName autoPlay s)) = currentEpisode s
     \<and> src (audio (snd (loadEpisode mm episode podcastName autoPlay s))) = src (audio s)
     \<and> localStorage (snd (loadEpisode mm episode podcastName autoPlay s)) ''currentEpisode''
         = localStorage s ''currentEpisode''
     \<and> localStorage (snd (loadEpisode mm episode podcastName autoPlay s)) ''playbackPosition''
         = localStorage s ''playbackPosition''
     \<and> fst (loadEpisode mm episode podcastName autoPlay s) \<noteq> None"
  by (simp add: loadEpisode_def split: option.splits)

theorem loadEpisode_invalid_atomic_witness:
  "snd (loadEpisode demo_mediaMetadata None ''Show'' True (demo_loaded 42)) = demo_loaded 42
   \<and> snd (loadEpisode demo_mediaMetadata (Some (demo_episode\<lparr>audioUrl := []\<rparr>)) ''Show'' True
            (demo_loaded 42))
       = demo_loaded 42
   \<and> currentEpisode
        (snd (loadEpisode demo_mediaMetadata (Some (demo_episode\<lparr>audioUrl := []\<rparr>)) ''Show'' True
                (demo_loaded 42))) = Some demo_episode"
  using loadEpisode_invalid_atomic [of None demo_mediaMetadata "''Show''" True "demo_loaded 42"]
        loadEpisode_invalid_atomic
          [of "Some (demo_episode\<lparr>audioUrl := []\<rparr>)" demo_mediaMetadata "''Show''" True
              "demo_loaded 42"]
  by (simp add: demo_loaded_def)

subsection \<open>Skipping\<close>

text \<open>
  C9: with an episode loaded, \<^verbatim>\<open>skipForward\<close> assigns the minimum of the live duration
  (0 when the duration is unknown) and the advanced position, so the position assigned
  never exceeds the duration, and \<^verbatim>\<open>skipBack\<close> assigns the maximum of 0 and the
  retreated position, so it is never negative; with no episode loaded both leave the
  state as it is.
\<close>

theorem skip_clamps:
  "(currentEpisode s = None \<longrightarrow> skipForward seconds s = s \<and> skipBack seconds s = s)
   \<and> (currentEpisode s \<noteq> None \<longrightarrow>
        au_currentTime (audio (skipForward seconds s))
          = math_min (duration_or_0 (au_duration (audio s))) (au_currentTime (audio s) + seconds)
        \<and> (\<forall>d. au_duration (audio s) = Num d \<longrightarrow>
               au_currentTime (audio (skipForward seconds s)) \<le> d)
        \<and> (au_duration (audio s) = NaN \<longrightarrow>
               au_currentTime (audio (skipForward seconds s)) = min 0 (au_currentTime (audio s) + seconds))
        \<and> au_currentTime (audio (skipBack seconds s))
          = max 0 (au_currentTime (audio s) - seconds)
        \<and> 0 \<le> au_currentTime (audio (skipBack seconds s)))"
  by (simp add: skipForward_def skipBack_def announceToScreenReader_def Let_def)

theorem skip_clamps_witness:
  "au_currentTime (audio (skipForward 30 (demo_loaded 95))) = 100
   \<and> au_currentTime (audio (skipBack 15 (demo_loaded 5))) = 0
   \<and> au_currentTime (audio (skipForward 30 (demo_loaded 10))) = 40
   \<and> skipForward 30 (blank_player Map.empty 0 :: nat player) = blank_player Map.empty 0
   \<and> skipBack 15 (blank_player Map.empty 0 :: nat player) = blank_player Map.empty 0"
  using skip_clamps [of "demo_loaded 95" 30] skip_clamps [of "demo_loaded 5" 15]
        skip_clamps [of "demo_loaded 10" 30]
        skip_clamps [of "blank_player Map.empty 0 :: nat player" 30]
        skip_clamps [of "blank_player Map.empty 0 :: nat player" 15]
  by (simp add: demo_loaded_def blank_player_def)

subsection \<open>Resuming at start\<close>

text \<open>
  C7: the constructor restores a persisted \<^verbatim>\<open>currentEpisode\<close> record (labels set, player
  shown, the episode marked as loaded, no play request, still paused, no timer) exactly
  when the record holds an episode and its age is strictly less than 24 hours (86400000
  ms); an older record, such as one 25 hours old, leaves the fresh player as it is. After
  a restore, the position is set to the persisted \<^verbatim>\<open>playbackPosition\<close> exactly when that
  record's \<open>episodeGuid\<close> equals the restored episode's \<open>guid\<close>, its age is strictly
  less than 24 hours and its position is greater than 0; otherwise the position stays 0.
\<close>

theorem loadSavedState_resume:
  "(ls ''currentEpisode'' = Some (CurrentEpisodeRec (Some e) ts) \<and> t - ts < 86400000 \<longrightarrow>
      currentEpisode (new_AudioPlayer ls t) = Some e
      \<and> episodeTitle (new_AudioPlayer ls t) = title e
      \<and> episodePodcast (new_AudioPlayer ls t) = ''Previously Played''
      \<and> playerShown (new_AudioPlayer ls t)
      \<and> playRequests (new_AudioPlayer ls t) = 0
      \<and> paused (audio (new_AudioPlayer ls t))
      \<and> timers (new_AudioPlayer ls t) = []
      \<and> (\<forall>g pos pts. ls ''playbackPosition'' = Some (PlaybackPositionRec g pos pts) \<longrightarrow>
            au_currentTime (audio (new_AudioPlayer ls t))
              = (if g = guid e \<and> t - pts < 86400000 \<and> pos > 0 then pos else 0)))
   \<and> (ls ''currentEpisode'' = Some (CurrentEpisodeRec eo ts) \<and> t - ts \<ge> 86400000 \<longrightarrow>
        new_AudioPlayer ls t = blank_player ls t)
   \<and> (currentEpisode (new_AudioPlayer ls t) \<noteq> None \<longrightarrow>
        (\<exists>e' ts'. ls ''currentEpisode'' = Some (CurrentEpisodeRec (Some e') ts')
                  \<and> t - ts' < 86400000))
   \<and> (au_currentTime (audio (new_AudioPlayer ls t)) \<noteq> 0 \<longrightarrow>
        (\<exists>e' ts' pos pts.
            ls ''currentEpisode'' = Some (CurrentEpisodeRec (Some e') ts') \<and> t - ts' < 86400000
            \<and> ls ''playbackPosition'' = Some (PlaybackPositionRec (guid e') pos pts)
            \<and> t - pts < 86400000 \<and> pos > 0
            \<and> au_currentTime (audio (new_AudioPlayer ls t)) = pos))"
  by (auto simp: new_AudioPlayer_def loadSavedState_def loadFromLocalStorage_def Let_def
        showPlayer_def updatePlayerUI_def blank_player_def
      split: option.splits stored.splits if_splits)

lemma demo_episode_guid: "guid demo_episode = ''g-1''"
  by (simp add: demo_episode_def)

text \<open>One hour is 3600000 ms, 25 hours are 90000000 ms. The record written at time 0 is
  restored at one hour, with the position, and not at 25 hours; a position record of
  another episode, or one 25 hours old, is not applied.\<close>

theorem loadSavedState_resume_witness:
  "currentEpisode (new_AudioPlayer (demo_storage 0 ''g-1'' 61 0) 3600000) = Some demo_episode
   \<and> au_currentTime (audio (new_AudioPlayer (demo_storage 0 ''g-1'' 61 0) 3600000)) = 61
   \<and> au_currentTime (audio (new_AudioPlayer (demo_storage 0 ''g-2'' 61 0) 3600000)) = 0
   \<and> au_currentTime (audio (new_AudioPlayer (demo_storage 89000000 ''g-1'' 61 0) 90000000)) = 0
   \<and> currentEpisode (new_AudioPlayer (demo_storage 89000000 ''g-1'' 61 0) 90000000)
       = Some demo_episode
   \<and> new_AudioPlayer (demo_storage 0 ''g-1'' 61 0) 90000000
       = blank_player (demo_storage 0 ''g-1'' 61 0) 90000000"
  using loadSavedState_resume
          [of "demo_storage 0 ''g-1'' 61 0" demo_episode 0 3600000 "Some demo_episode"]
        loadSavedState_resume
          [of "demo_storage 0 ''g-2'' 61 0" demo_episode 0 3600000 "Some demo_episode"]
        loadSavedState_resume
          [of "demo_storage 89000000 ''g-1'' 61 0" demo_episode 89000000 90000000
              "Some demo_episode"]
        loadSavedState_resume
          [of "demo_storage 0 ''g-1'' 61 0" demo_episode 0 90000000 "Some demo_episode"]
  by (simp add: demo_storage_def demo_episode_guid)

subsection \<open>The readiness race and its timeout\<close>

lemma run_until_idle:
  "next_timer (timers s) = Some x \<Longrightarrow> T < fst x \<Longrightarrow> run_until rs T n s = Some s"
  by (cases n) simp_all

text \<open>The state that a successful \<^verbatim>\<open>loadEpisode\<close> with \<open>autoPlay\<close> leaves when no timer was
  pending: the poll is due in 100 ms, the timeout in 10000 ms.\<close>

lemma loadEpisode_autoPlay_state:
  assumes "audioUrl e \<noteq> []" "updateMediaSession mm e = None" "timers s = []"
  shows "fst (loadEpisode mm (Some e) name True s) = None"
    and "timers (snd (loadEpisode mm (Some e) name True s))
           = [(clock s + 100, TryPlay), (clock s + 10000, LoadTimeout (nextListener s))]"
    and "clock (snd (loadEpisode mm (Some e) name True s)) = clock s"
    and "loading (snd (loadEpisode mm (Some e) name True s))"
    and "playRequests (snd (loadEpisode mm (Some e) name True s)) = playRequests s"
    and "canplayListeners (snd (loadEpisode mm (Some e) name True s))
           = canplayListeners s @ [nextListener s]"
    and "announcements (snd (loadEpisode mm (Some e) name True s))
           = announcements s @ [Say (''Loading episode: '' @ title e)]"
    and "currentEpisode (snd (loadEpisode mm (Some e) name True s)) = Some e"
    and "src (audio (snd (loadEpisode mm (Some e) name True s))) = audioUrl e"
  using assms
  by (simp_all add: loadEpisode_def Let_def waitForReadyAndPlay_def tryPlay_def setTimeout_def
      announceToScreenReader_def saveCurrentEpisode_def showPlayer_def updatePlayerUI_def
      setLoadingState_def audio_load_def)

text \<open>One poll on an engine that is not ready: it re-arms itself and changes nothing
  else.\<close>

lemma first_poll_fires:
  assumes "timers s = [(d, TryPlay), (D, LoadTimeout i)]" "d < D" "clock s \<le> d" "rs d < 3"
  shows "next_timer (timers s) = Some (d, TryPlay)"
    and "timers (run_timer rs (d, TryPlay) s) = [(D, LoadTimeout i), (d + 100, TryPlay)]"
    and "clock (run_timer rs (d, TryPlay) s) = d"
    and "loading (run_timer rs (d, TryPlay) s) = loading s"
    and "playRequests (run_timer rs (d, TryPlay) s) = playRequests s"
    and "canplayListeners (run_timer rs (d, TryPlay) s) = canplayListeners s"
    and "announcements (run_timer rs (d, TryPlay) s) = announcements s"
    and "currentEpisode (run_timer rs (d, TryPlay) s) = currentEpisode s"
  using assms
  by (simp_all add: run_timer_def tryPlay_def setTimeout_def Let_def max_def)

lemma poll_fires:
  assumes "timers s = [(D, LoadTimeout i), (d, TryPlay)]" "d < D" "clock s \<le> d" "rs d < 3"
  shows "next_timer (timers s) = Some (d, TryPlay)"
    and "timers (run_timer rs (d, TryPlay) s) = [(D, LoadTimeout i), (d + 100, TryPlay)]"
    and "clock (run_timer rs (d, TryPlay) s) = d"
    and "loading (run_timer rs (d, TryPlay) s) = loading s"
    and "playRequests (run_timer rs (d, TryPlay) s) = playRequests s"
    and "canplayListeners (run_timer rs (d, TryPlay) s) = canplayListeners s"
    and "announcements (run_timer rs (d, TryPlay) s) = announcements s"
    and "currentEpisode (run_timer rs (d, TryPlay) s) = currentEpisode s"
  using assms
  by (simp_all add: run_timer_def tryPlay_def setTimeout_def Let_def max_def)

lemma late_poll_fires:
  assumes "timers s = [(d, TryPlay)]" "clock s \<le> d" "rs d < 3"
  shows "next_timer (timers s) = Some (d, TryPlay)"
    and "timers (run_timer rs (d, TryPlay) s) = [(d + 100, TryPlay)]"
    and "clock (run_timer rs (d, TryPlay) s) = d"
    and "loading (run_timer rs (d, TryPlay) s) = loading s"
    and "playRequests (run_timer rs (d, TryPlay) s) = playRequests s"
    and "canplayListeners (run_timer rs (d, TryPlay) s) = canplayListeners s"
    and "announcements (run_timer rs (d, TryPlay) s) = announcements s"
    and "currentEpisode (run_timer rs (d, TryPlay) s) = currentEpisode s"
  using assms
  by (simp_all add: run_timer_def tryPlay_def setTimeout_def Let_def max_def)

text \<open>The timeout on an engine that is not ready: it removes its listener, leaves the
  loading state and announces; the poll timer stays in the queue.\<close>

lemma timeout_fires:
  assumes "timers s = [(D, LoadTimeout i), (D, TryPlay)]" "clock s \<le> D" "rs D < 3"
  shows "next_timer (timers s) = Some (D, LoadTimeout i)"
    and "timers (run_timer rs (D, LoadTimeout i) s) = [(D, TryPlay)]"
    and "clock (run_timer rs (D, LoadTimeout i) s) = D"
    and "\<not> loading (run_timer rs (D, LoadTimeout i) s)"
    and "playRequests (run_timer rs (D, LoadTimeout i) s) = playRequests s"
    and "canplayListeners (run_timer rs (D, LoadTimeout i) s) = removeAll i (canplayListeners s)"
    and "announcements (run_timer rs (D, LoadTimeout i) s)
           = announcements s @ [Say ''Episode loading timeout. Press play to try again.'']"
    and "currentEpisode (run_timer rs (D, LoadTimeout i) s) = currentEpisode s"
  using assms
  by (simp_all add: run_timer_def loadTimeout_def setLoadingState_def announceToScreenReader_def
      Let_def max_def)

text \<open>With \<open>k\<close> polls left before the timeout is due, \<open>k + 2\<close> timers fire up to that
  time: the polls, the timeout, and the poll due at the same time.\<close>

lemma polls_until_timeout:
  assumes nr: "\<And>t. t \<le> D \<Longrightarrow> rs t < 3"
  shows "timers s = [(D, LoadTimeout i), (d, TryPlay)] \<Longrightarrow> clock s \<le> d \<Longrightarrow>
         D = d + 100 * int k \<Longrightarrow> k + 2 \<le> fuel \<Longrightarrow>
         \<exists>s'. run_until rs D fuel s = Some s' \<and> timed_out s s' i D"
proof (induction k arbitrary: s d fuel)
  case 0
  from "0.prems"(3) have dD: "d = D" by simp
  from "0.prems"(4) obtain f where fuel: "fuel = Suc (Suc f)"
    by (cases fuel; cases "fuel - 1") simp_all
  let ?s1 = "run_timer rs (D, LoadTimeout i) s"
  let ?s2 = "run_timer rs (D, TryPlay) ?s1"
  have rD: "rs D < 3" by (rule nr) simp
  have t: "timers s = [(D, LoadTimeout i), (D, TryPlay)]" "clock s \<le> D"
    using "0.prems"(1,2) dD by simp_all
  note a1 = timeout_fires[of s D i rs, OF t rD]
  have c1: "clock ?s1 \<le> D" using a1(3) by simp
  note b1 = late_poll_fires[of ?s1 D rs, OF a1(2) c1 rD]
  have "run_until rs D fuel s = run_until rs D f ?s2"
    using a1(1) b1(1) by (simp add: fuel)
  also have "\<dots> = Some ?s2"
    by (rule run_until_idle[where x="(D + 100, TryPlay)"]) (simp_all add: b1(2))
  finally have "run_until rs D fuel s = Some ?s2" .
  moreover have "timed_out s ?s2 i D"
    using a1 b1 by (simp add: timed_out_def)
  ultimately show ?case by blast
next
  case (Suc k)
  then have lt: "d < D" by simp
  from Suc.prems obtain f where fuel: "fuel = Suc f" and f: "k + 2 \<le> f"
    by (cases fuel) simp_all
  let ?s1 = "run_timer rs (d, TryPlay) s"
  have rd: "rs d < 3" using lt by (intro nr) simp
  note a = poll_fires[of s D i d rs, OF Suc.prems(1) lt Suc.prems(2) rd]
  have "\<exists>s'. run_until rs D f ?s1 = Some s' \<and> timed_out ?s1 s' i D"
    using Suc.IH[of ?s1 "d + 100" f] a(2,3) Suc.prems(3) f by simp
  then obtain s' where r: "run_until rs D f ?s1 = Some s'" and to: "timed_out ?s1 s' i D"
    by blast
  have "run_until rs D fuel s = Some s'"
    using a(1) lt r by (simp add: fuel)
  moreover have "timed_out s s' i D"
    using to a by (simp add: timed_out_def)
  ultimately show ?case by blast
qed

text \<open>
  The part of C1 that holds, for every engine that is not ready during the ten seconds
  after a \<^verbatim>\<open>loadEpisode\<close> with \<open>autoPlay\<close> that raises nothing, on a player with no timer
  pending: the event
  loop reaches the timeout (101 timers fire), the timeout is announced at 10000 ms, the
  loading state is left, no play request has been issued and the \<^verbatim>\<open>canplay\<close> listener
  is removed. The last conjunct is the part that fails: the poll is still scheduled.
\<close>

lemma never_ready_timeout:
  assumes nr: "\<And>t. t \<le> clock s + 10000 \<Longrightarrow> rs t < 3" and e: "audioUrl e \<noteq> []"
    and ms: "updateMediaSession mm e = None"
    and idle: "timers s = []" and fuel: "101 \<le> fuel"
  shows "\<exists>s'. run_until rs (clock s + 10000) fuel (snd (loadEpisode mm (Some e) name True s))
                = Some s'
           \<and> clock s' = clock s + 10000
           \<and> \<not> loading s'
           \<and> playRequests s' = playRequests s
           \<and> canplayListeners s'
               = removeAll (nextListener s) (canplayListeners s @ [nextListener s])
           \<and> announcements s' = announcements s @
                [Say (''Loading episode: '' @ title e),
                 Say ''Episode loading timeout. Press play to try again.'']
           \<and> currentEpisode s' = Some e
           \<and> timers s' = [(clock s + 10100, TryPlay)]"
proof -
  let ?s0 = "snd (loadEpisode mm (Some e) name True s)"
  let ?D = "clock s + 10000"
  let ?i = "nextListener s"
  note l = loadEpisode_autoPlay_state[OF e ms idle, of name]
  from fuel obtain f where fu: "fuel = Suc f" and f: "98 + 2 \<le> f"
    by (cases fuel) simp_all
  let ?s1 = "run_timer rs (clock s + 100, TryPlay) ?s0"
  have a1: "clock s + 100 < ?D" "clock ?s0 \<le> clock s + 100"
    using l(3) by simp_all
  have r1: "rs (clock s + 100) < 3" by (rule nr) simp
  note b = first_poll_fires[of ?s0 "clock s + 100" ?D ?i rs, OF l(2) a1 r1]
  have "\<exists>s'. run_until rs ?D f ?s1 = Some s' \<and> timed_out ?s1 s' ?i ?D"
    using polls_until_timeout[of ?D rs ?s1 ?i "clock s + 200" 98 f, OF nr] b(2,3) f by simp
  then obtain s' where r: "run_until rs ?D f ?s1 = Some s'" and to: "timed_out ?s1 s' ?i ?D"
    by blast
  have "run_until rs ?D fuel ?s0 = Some s'"
    using b(1) r by (simp add: fu)
  then show ?thesis using to b l by (auto simp: timed_out_def)
qed

text \<open>A poll that finds the engine ready issues the play request, whatever was announced
  before.\<close>

lemma stale_poll_plays:
  assumes "timers s = [(d, TryPlay)]" "clock s \<le> d" "3 \<le> rs d" "currentEpisode s \<noteq> None"
  shows "run_until rs d (Suc 0) s = Some (run_timer rs (d, TryPlay) s)"
    and "playRequests (run_timer rs (d, TryPlay) s) = Suc (playRequests s)"
    and "timers (run_timer rs (d, TryPlay) s) = []"
    and "announcements (run_timer rs (d, TryPlay) s) = announcements s"
  using assms
  by (simp_all add: run_timer_def tryPlay_def play_def Let_def max_def)

lemma blank_player_fields:
  "clock (blank_player ls t) = t" "timers (blank_player ls t) = []"
  "playRequests (blank_player ls t) = 0" "canplayListeners (blank_player ls t) = []"
  "nextListener (blank_player ls t) = 0" "announcements (blank_player ls t) = []"
  by (simp_all add: blank_player_def)

lemma demo_episode_fields:
  "audioUrl demo_episode \<noteq> []" "title demo_episode = ''Pilot''"
  "updateMediaSession mm demo_episode = None"
  by (simp_all add: demo_episode_def updateMediaSession_def)

text \<open>
  C1, on a media engine that never buffers and never emits \<^verbatim>\<open>canplay\<close>, after
  \<^verbatim>\<open>loadEpisode(demo_episode, 'Show', true)\<close> at time 0: when every timer due up to
  10000 ms has run, the timeout has been announced, the loading state is left, no play
  request was issued and the \<^verbatim>\<open>canplay\<close> listener is gone, as the claim says; but the
  readiness poll has not been cancelled: \<^verbatim>\<open>tryPlay\<close> has re-armed itself for 10100 ms, so
  the race is not cancelled.
\<close>

theorem stalled_autoplay_keeps_polling:
  "map_option clock (run_until never_ready 10000 200 demo_autoplay) = Some 10000
   \<and> map_option loading (run_until never_ready 10000 200 demo_autoplay) = Some False
   \<and> map_option playRequests (run_until never_ready 10000 200 demo_autoplay) = Some 0
   \<and> map_option canplayListeners (run_until never_ready 10000 200 demo_autoplay) = Some []
   \<and> map_option announcements (run_until never_ready 10000 200 demo_autoplay)
       = Some [Say ''Loading episode: Pilot'',
               Say ''Episode loading timeout. Press play to try again.'']
   \<and> map_option timers (run_until never_ready 10000 200 demo_autoplay)
       = Some [(10100, TryPlay)]
   \<and> map_option race_cancelled (run_until never_ready 10000 200 demo_autoplay) = Some False"
proof -
  let ?b = "blank_player Map.empty 0 :: nat player"
  have "\<exists>s'. run_until never_ready (clock ?b + 10000) 200
               (snd (loadEpisode demo_mediaMetadata (Some demo_episode) ''Show'' True ?b)) = Some s'
           \<and> clock s' = clock ?b + 10000
           \<and> \<not> loading s'
           \<and> playRequests s' = playRequests ?b
           \<and> canplayListeners s' = removeAll (nextListener ?b) (canplayListeners ?b @ [nextListener ?b])
           \<and> announcements s' = announcements ?b @
                [Say (''Loading episode: '' @ title demo_episode),
                 Say ''Episode loading timeout. Press play to try again.'']
           \<and> currentEpisode s' = Some demo_episode
           \<and> timers s' = [(clock ?b + 10100, TryPlay)]"
    by (rule never_ready_timeout)
       (simp_all add: never_ready_def demo_episode_fields blank_player_fields)
  then show ?thesis
    by (auto simp: demo_autoplay_def blank_player_fields demo_episode_fields race_cancelled_def)
qed

text \<open>The consequence once the engine does buffer: with an engine that becomes ready just
  after the ten seconds, the timeout is announced ("Press play to try again") with no
  play request issued, and the poll due at 10100 ms then issues the play request on its
  own.\<close>

lemma stale_poll_starts_playback:
  "map_option announcements (run_until ready_after_timeout 10000 200 demo_autoplay)
     = Some [Say ''Loading episode: Pilot'',
             Say ''Episode loading timeout. Press play to try again.'']
   \<and> map_option playRequests (run_until ready_after_timeout 10000 200 demo_autoplay) = Some 0
   \<and> map_option playRequests
       (Option.bind (run_until ready_after_timeout 10000 200 demo_autoplay)
          (run_until ready_after_timeout 10100 (Suc 0))) = Some 1"
proof -
  let ?b = "blank_player Map.empty 0 :: nat player"
  have "\<exists>s'. run_until ready_after_timeout (clock ?b + 10000) 200
               (snd (loadEpisode demo_mediaMetadata (Some demo_episode) ''Show'' True ?b)) = Some s'
           \<and> clock s' = clock ?b + 10000
           \<and> \<not> loading s'
           \<and> playRequests s' = playRequests ?b
           \<and> canplayListeners s' = removeAll (nextListener ?b) (canplayListeners ?b @ [nextListener ?b])
           \<and> announcements s' = announcements ?b @
                [Say (''Loading episode: '' @ title demo_episode),
                 Say ''Episode loading timeout. Press play to try again.'']
           \<and> currentEpisode s' = Some demo_episode
           \<and> timers s' = [(clock ?b + 10100, TryPlay)]"
    by (rule never_ready_timeout)
       (simp_all add: ready_after_timeout_def demo_episode_fields blank_player_fields)
  then obtain s' where r: "run_until ready_after_timeout 10000 200 demo_autoplay = Some s'"
    and f: "clock s' = 10000" "playRequests s' = 0" "currentEpisode s' = Some demo_episode"
       "timers s' = [(10100, TryPlay)]"
       "announcements s' = [Say ''Loading episode: Pilot'',
             Say ''Episode loading timeout. Press play to try again.'']"
    by (auto simp: demo_autoplay_def blank_player_fields demo_episode_fields)
  have "run_until ready_after_timeout 10100 (Suc 0) s'
          = Some (run_timer ready_after_timeout (10100, TryPlay) s')"
    and "playRequests (run_timer ready_after_timeout (10100, TryPlay) s') = Suc (playRequests s')"
    using stale_poll_plays[of s' 10100 ready_after_timeout] f
    by (simp_all add: ready_after_timeout_def)
  then show ?thesis using r f by simp
qed


subsection \<open>Duration formats\<close>

lemma colon_not_digit: "\<not> isDigit CHR '':''"
  by (simp add: isDigit_def)

lemma take_digits: "list_all isDigit ds \<Longrightarrow> takeWhile isDigit (ds @ CHR '':'' # r) = ds"
  by (simp add: takeWhile_append2 list_all_iff colon_not_digit)

lemma drop_digits:
  "list_all isDigit ds \<Longrightarrow> dropWhile isDigit (ds @ CHR '':'' # r) = CHR '':'' # r"
  by (simp add: dropWhile_append2 list_all_iff colon_not_digit)

lemma take_all_digits: "list_all isDigit ds \<Longrightarrow> takeWhile isDigit ds = ds"
  by (simp add: list_all_iff)

lemma match_short_exact:
  "list_all isDigit m \<Longrightarrow> m \<noteq> [] \<Longrightarrow> list_all isDigit sec \<Longrightarrow> sec \<noteq> [] \<Longrightarrow>
   match_shortPattern (m @ CHR '':'' # sec) = Some (m, sec)"
  by (simp add: match_shortPattern_def take_digits drop_digits take_all_digits)

lemma match_time_exact:
  "list_all isDigit h \<Longrightarrow> h \<noteq> [] \<Longrightarrow> list_all isDigit m \<Longrightarrow> m \<noteq> [] \<Longrightarrow>
   list_all isDigit sec \<Longrightarrow> sec \<noteq> [] \<Longrightarrow>
   match_timePattern (h @ CHR '':'' # m @ CHR '':'' # sec) = Some (h, m, sec)"
  by (simp add: match_timePattern_def take_digits drop_digits match_short_exact)

lemma search_hit: "m str = Some g \<Longrightarrow> regex_search m str = Some g"
  by (cases str) simp_all

lemma split_at_dropWhile: "dropWhile P xs = y # ys \<Longrightarrow> xs = takeWhile P xs @ y # ys"
  by (metis takeWhile_dropWhile_id)

text \<open>A match of the short pattern spans a colon, a match of the time pattern two.\<close>

lemma short_has_colon:
  assumes "match_shortPattern str = Some g"
  shows "1 \<le> count_list str (CHR '':'')"
proof -
  from assms obtain r1 where "dropWhile isDigit str = CHR '':'' # r1"
    by (auto simp: match_shortPattern_def Let_def split: list.splits if_splits)
  then have "str = takeWhile isDigit str @ CHR '':'' # r1"
    by (rule split_at_dropWhile)
  then have "count_list str (CHR '':'')
               = count_list (takeWhile isDigit str @ CHR '':'' # r1) (CHR '':'')"
    by simp
  then show ?thesis by simp
qed

lemma time_has_two_colons:
  assumes "match_timePattern str = Some g"
  shows "2 \<le> count_list str (CHR '':'')"
proof -
  from assms obtain r1 g' where d: "dropWhile isDigit str = CHR '':'' # r1"
    and m: "match_shortPattern r1 = Some g'"
    by (auto simp: match_timePattern_def Let_def split: list.splits if_splits option.splits)
  from d have "str = takeWhile isDigit str @ CHR '':'' # r1"
    by (rule split_at_dropWhile)
  then have "count_list str (CHR '':'')
               = count_list (takeWhile isDigit str @ CHR '':'' # r1) (CHR '':'')"
    by simp
  with short_has_colon[OF m] show ?thesis by simp
qed

lemma search_time_few_colons:
  "count_list str (CHR '':'') < 2 \<Longrightarrow> regex_search match_timePattern str = None"
proof (induction str)
  case Nil
  then show ?case by (simp add: match_timePattern_def)
next
  case (Cons c cs)
  have "match_timePattern (c # cs) = None"
  proof (cases "match_timePattern (c # cs)")
    case (Some g)
    from time_has_two_colons[OF Some] Cons.prems show ?thesis by simp
  qed simp
  moreover have "count_list cs (CHR '':'') < 2"
    using Cons.prems by (simp split: if_splits)
  ultimately show ?case using Cons.IH by simp
qed

lemma digits_no_colon: "list_all isDigit ds \<Longrightarrow> count_list ds (CHR '':'') = 0"
  by (induction ds) (auto simp: colon_not_digit)

lemma not_number: "\<not> numberPattern_test (a @ CHR '':'' # b)"
  by (simp add: numberPattern_test_def colon_not_digit)

lemma parseDuration_time_shape:
  assumes "list_all isDigit h" "h \<noteq> []" "list_all isDigit m" "m \<noteq> []"
    "list_all isDigit sec" "sec \<noteq> []"
  shows "parseDuration (h @ CHR '':'' # m @ CHR '':'' # sec)
           = js_add (js_add (js_mul (parseInt10 h) 3600) (js_mul (parseInt10 m) 60))
               (parseInt10 sec)"
proof -
  have "regex_search match_timePattern (h @ CHR '':'' # m @ CHR '':'' # sec) = Some (h, m, sec)"
    using assms by (intro search_hit match_time_exact)
  then show ?thesis by (simp add: parseDuration_def not_number)
qed

lemma parseDuration_short_shape:
  assumes "list_all isDigit m" "m \<noteq> []" "list_all isDigit sec" "sec \<noteq> []"
  shows "parseDuration (m @ CHR '':'' # sec) = js_add (js_mul (parseInt10 m) 60) (parseInt10 sec)"
proof -
  have "regex_search match_shortPattern (m @ CHR '':'' # sec) = Some (m, sec)"
    using assms by (intro search_hit match_short_exact)
  moreover have "regex_search match_timePattern (m @ CHR '':'' # sec) = None"
    using assms by (intro search_time_few_colons) (simp add: digits_no_colon)
  ultimately show ?thesis by (simp add: parseDuration_def not_number)
qed

text \<open>Below \<open>2^53\<close> the doubles are exact: \<^verbatim>\<open>parseInt\<close> gives the decimal value, and the
  products and sums of non-negative integers are the integer results.\<close>

lemma digitValue_nonneg: "isDigit c \<Longrightarrow> 0 \<le> digitValue c"
  by (auto simp: isDigit_def digitValue_def)

lemma foldl_digits_nonneg:
  "0 \<le> a \<Longrightarrow> list_all isDigit ds \<Longrightarrow> 0 \<le> foldl (\<lambda>a c. a * 10 + digitValue c) a ds"
  by (induction ds arbitrary: a) (simp_all add: digitValue_nonneg)

lemma decimal_nonneg: "list_all isDigit ds \<Longrightarrow> 0 \<le> decimal ds"
  by (simp add: decimal_def foldl_digits_nonneg)

lemma to_double_exact: "n < 2 ^ 53 \<Longrightarrow> to_double n = Whole n"
  by (simp add: to_double_def)

lemma time_sum_exact:
  assumes "0 \<le> a" "0 \<le> b" "0 \<le> c" "a * 3600 + b * 60 + c < 2 ^ 53"
  shows "js_add (js_add (js_mul (Whole a) 3600) (js_mul (Whole b) 60)) (Whole c)
           = Whole (a * 3600 + b * 60 + c)"
proof -
  have "a * 3600 < 2 ^ 53" "b * 60 < 2 ^ 53" "a * 3600 + b * 60 < 2 ^ 53"
    using assms by simp_all
  then show ?thesis using assms(4) by (simp add: to_double_exact)
qed

lemma short_sum_exact:
  assumes "0 \<le> b" "0 \<le> c" "b * 60 + c < 2 ^ 53"
  shows "js_add (js_mul (Whole b) 60) (Whole c) = Whole (b * 60 + c)"
proof -
  have "b * 60 < 2 ^ 53" using assms by simp
  then show ?thesis using assms(3) by (simp add: to_double_exact)
qed

lemma parseDuration_time_exact:
  assumes "list_all isDigit h" "h \<noteq> []" "list_all isDigit m" "m \<noteq> []"
    "list_all isDigit sec" "sec \<noteq> []"
    "decimal h * 3600 + decimal m * 60 + decimal sec < 2 ^ 53"
  shows "parseDuration (h @ CHR '':'' # m @ CHR '':'' # sec)
           = Whole (decimal h * 3600 + decimal m * 60 + decimal sec)"
proof -
  note nn = decimal_nonneg[OF assms(1)] decimal_nonneg[OF assms(3)] decimal_nonneg[OF assms(5)]
  have "decimal h < 2 ^ 53" "decimal m < 2 ^ 53" "decimal sec < 2 ^ 53"
    using nn assms(7) by simp_all
  then have "parseInt10 h = Whole (decimal h)" "parseInt10 m = Whole (decimal m)"
    "parseInt10 sec = Whole (decimal sec)"
    by (simp_all add: parseInt10_def to_double_exact)
  then show ?thesis
    using parseDuration_time_shape[OF assms(1-6)] time_sum_exact[OF nn assms(7)] by simp
qed

lemma parseDuration_short_exact:
  assumes "list_all isDigit m" "m \<noteq> []" "list_all isDigit sec" "sec \<noteq> []"
    "decimal m * 60 + decimal sec < 2 ^ 53"
  shows "parseDuration (m @ CHR '':'' # sec) = Whole (decimal m * 60 + decimal sec)"
proof -
  note nn = decimal_nonneg[OF assms(1)] decimal_nonneg[OF assms(3)]
  have "decimal m < 2 ^ 53" "decimal sec < 2 ^ 53"
    using nn assms(5) by simp_all
  then have "parseInt10 m = Whole (decimal m)" "parseInt10 sec = Whole (decimal sec)"
    by (simp_all add: parseInt10_def to_double_exact)
  then show ?thesis
    using parseDuration_short_shape[OF assms(1-4)] short_sum_exact[OF nn assms(5)] by simp
qed

lemmas duration_eval =
  parseDuration_def numberPattern_test_def isDigit_def parseInt10_def decimal_def digitValue_def
  match_timePattern_def match_shortPattern_def to_double_exact

text \<open>
  C5: \<^verbatim>\<open>parseDuration\<close> tries the bare integer first, then \<^verbatim>\<open>H:MM:SS\<close>, then \<^verbatim>\<open>MM:SS\<close>,
  and the first pattern that matches decides: a string of digits gives \<^verbatim>\<open>parseInt\<close> of
  it; a string in which the three-group pattern matches gives
  \<^verbatim>\<open>hours * 3600 + minutes * 60 + seconds\<close> (in particular digits, colon, digits, colon,
  digits, where the two-group pattern would match as well); otherwise a string in which
  the two-group pattern matches gives \<^verbatim>\<open>minutes * 60 + seconds\<close> (in particular digits,
  colon, digits); the empty string and a string that no pattern matches give 0. The
  numbers are the program's doubles: \<^verbatim>\<open>parseInt\<close>, the products and the sums round as
  doubles do, and whenever the integer result is below \<open>2^53\<close> they are exactly the
  decimal value, \<open>H * 3600 + MM * 60 + SS\<close> and \<open>MM * 60 + SS\<close>. The five values of
  the spec are as stated.
\<close>

theorem parseDuration_formats:
  "parseDuration ''1:02:03'' = Whole 3723 \<and> parseDuration ''2:05'' = Whole 125
   \<and> parseDuration ''90'' = Whole 90 \<and> parseDuration [] = Whole 0
   \<and> parseDuration ''garbage'' = Whole 0
   \<and> (n \<noteq> [] \<and> list_all isDigit n \<longrightarrow> parseDuration n = parseInt10 n)
   \<and> (n \<noteq> [] \<and> list_all isDigit n \<and> decimal n < 2 ^ 53 \<longrightarrow>
        parseDuration n = Whole (decimal n))
   \<and> (h \<noteq> [] \<and> list_all isDigit h \<and> m \<noteq> [] \<and> list_all isDigit m
        \<and> sec \<noteq> [] \<and> list_all isDigit sec \<longrightarrow>
        parseDuration (h @ '':'' @ m @ '':'' @ sec)
          = js_add (js_add (js_mul (parseInt10 h) 3600) (js_mul (parseInt10 m) 60))
              (parseInt10 sec))
   \<and> (h \<noteq> [] \<and> list_all isDigit h \<and> m \<noteq> [] \<and> list_all isDigit m
        \<and> sec \<noteq> [] \<and> list_all isDigit sec
        \<and> decimal h * 3600 + decimal m * 60 + decimal sec < 2 ^ 53 \<longrightarrow>
        parseDuration (h @ '':'' @ m @ '':'' @ sec)
          = Whole (decimal h * 3600 + decimal m * 60 + decimal sec))
   \<and> (m \<noteq> [] \<and> list_all isDigit m \<and> sec \<noteq> [] \<and> list_all isDigit sec \<longrightarrow>
        parseDuration (m @ '':'' @ sec) = js_add (js_mul (parseInt10 m) 60) (parseInt10 sec))
   \<and> (m \<noteq> [] \<and> list_all isDigit m \<and> sec \<noteq> [] \<and> list_all isDigit sec
        \<and> decimal m * 60 + decimal sec < 2 ^ 53 \<longrightarrow>
        parseDuration (m @ '':'' @ sec) = Whole (decimal m * 60 + decimal sec))
   \<and> (\<not> numberPattern_test str \<and> regex_search match_timePattern str = Some (h', m', sec') \<longrightarrow>
        parseDuration str
          = js_add (js_add (js_mul (parseInt10 h') 3600) (js_mul (parseInt10 m') 60))
              (parseInt10 sec'))
   \<and> (\<not> numberPattern_test str \<and> regex_search match_timePattern str = None
        \<and> regex_search match_shortPattern str = Some (m', sec') \<longrightarrow>
        parseDuration str = js_add (js_mul (parseInt10 m') 60) (parseInt10 sec'))
   \<and> (\<not> numberPattern_test str \<and> regex_search match_timePattern str = None
        \<and> regex_search match_shortPattern str = None \<longrightarrow> parseDuration str = Whole 0)"
proof -
  have ex: "parseDuration ''1:02:03'' = Whole 3723 \<and> parseDuration ''2:05'' = Whole 125
      \<and> parseDuration ''90'' = Whole 90 \<and> parseDuration [] = Whole 0
      \<and> parseDuration ''garbage'' = Whole 0"
    by (simp add: duration_eval)
  have num: "n \<noteq> [] \<and> list_all isDigit n \<longrightarrow> parseDuration n = parseInt10 n"
    by (simp add: parseDuration_def numberPattern_test_def)
  have numx: "n \<noteq> [] \<and> list_all isDigit n \<and> decimal n < 2 ^ 53 \<longrightarrow>
      parseDuration n = Whole (decimal n)"
    by (simp add: parseDuration_def numberPattern_test_def parseInt10_def to_double_exact)
  have cascade: "parseDuration str =
      (if str = [] then Whole 0
       else if numberPattern_test str then parseInt10 str
       else case regex_search match_timePattern str of
              Some (a, b, c) \<Rightarrow>
                js_add (js_add (js_mul (parseInt10 a) 3600) (js_mul (parseInt10 b) 60))
                  (parseInt10 c)
            | None \<Rightarrow>
                (case regex_search match_shortPattern str of
                   Some (b, c) \<Rightarrow> js_add (js_mul (parseInt10 b) 60) (parseInt10 c)
                 | None \<Rightarrow> Whole 0))"
    by (simp add: parseDuration_def)
  have empty_no_match: "regex_search match_timePattern [] = None"
    "regex_search match_shortPattern [] = None"
    by (simp_all add: match_timePattern_def match_shortPattern_def)
  have c1: "\<not> numberPattern_test str \<and> regex_search match_timePattern str = Some (h', m', sec')
      \<longrightarrow> parseDuration str
            = js_add (js_add (js_mul (parseInt10 h') 3600) (js_mul (parseInt10 m') 60))
                (parseInt10 sec')"
    using empty_no_match by (auto simp: cascade)
  have c2: "\<not> numberPattern_test str \<and> regex_search match_timePattern str = None
      \<and> regex_search match_shortPattern str = Some (m', sec')
      \<longrightarrow> parseDuration str = js_add (js_mul (parseInt10 m') 60) (parseInt10 sec')"
    using empty_no_match by (auto simp: cascade)
  have c3: "\<not> numberPattern_test str \<and> regex_search match_timePattern str = None
      \<and> regex_search match_shortPattern str = None \<longrightarrow> parseDuration str = Whole 0"
    by (simp add: cascade)
  have t: "h \<noteq> [] \<and> list_all isDigit h \<and> m \<noteq> [] \<and> list_all isDigit m
        \<and> sec \<noteq> [] \<and> list_all isDigit sec \<longrightarrow>
        parseDuration (h @ '':'' @ m @ '':'' @ sec)
          = js_add (js_add (js_mul (parseInt10 h) 3600) (js_mul (parseInt10 m) 60))
              (parseInt10 sec)"
    by (simp add: parseDuration_time_shape)
  have tx: "h \<noteq> [] \<and> list_all isDigit h \<and> m \<noteq> [] \<and> list_all isDigit m
        \<and> sec \<noteq> [] \<and> list_all isDigit sec
        \<and> decimal h * 3600 + decimal m * 60 + decimal sec < 2 ^ 53 \<longrightarrow>
        parseDuration (h @ '':'' @ m @ '':'' @ sec)
          = Whole (decimal h * 3600 + decimal m * 60 + decimal sec)"
    using parseDuration_time_exact[of h m sec] by simp
  have sh: "m \<noteq> [] \<and> list_all isDigit m \<and> sec \<noteq> [] \<and> list_all isDigit sec \<longrightarrow>
        parseDuration (m @ '':'' @ sec) = js_add (js_mul (parseInt10 m) 60) (parseInt10 sec)"
    by (simp add: parseDuration_short_shape)
  have shx: "m \<noteq> [] \<and> list_all isDigit m \<and> sec \<noteq> [] \<and> list_all isDigit sec
        \<and> decimal m * 60 + decimal sec < 2 ^ 53 \<longrightarrow>
        parseDuration (m @ '':'' @ sec) = Whole (decimal m * 60 + decimal sec)"
    using parseDuration_short_exact[of m sec] by simp
  from ex num numx t tx sh shx c1 c2 c3 show ?thesis by blast
qed

theorem parseDuration_formats_witness:
  "parseDuration ''0042'' = Whole 42 \<and> parseDuration ''12:34:56'' = Whole 45296
   \<and> parseDuration ''7:08'' = Whole 428 \<and> parseDuration ''about 1:02:03 long'' = Whole 3723
   \<and> parseDuration ''n/a'' = Whole 0"
  using parseDuration_formats
          [of "''0042''" "''12''" "''34''" "''56''" "''about 1:02:03 long''" "''1''" "''02''" "''03''"]
        parseDuration_formats [of "''0042''" "''12''" "''7''" "''08''" "''n/a''" "''1''" "''02''" "''03''"]
  by (simp add: duration_eval)

text \<open>Beyond \<open>2^53\<close> the values are those of the doubles: \<open>2^53 + 1\<close> is read as \<open>2^53\<close>,
  and as a number of minutes it gives \<open>2^53 * 60\<close> seconds.\<close>

lemma big_decimals:
  "decimal ''9007199254740993'' = 9007199254740993"
  "decimal ''9007199254740995'' = 9007199254740995"
  "decimal ''0'' = 0"
  by (simp_all add: decimal_def digitValue_def)

lemma big_bits:
  "bits 9007199254740993 = 54" "bits 9007199254740995 = 54" "bits 540431955284459520 = 59"
  by (simp_all add: bits.simps)

lemma big_doubles:
  "to_double 9007199254740993 = Whole 9007199254740992"
  "to_double 9007199254740995 = Whole 9007199254740996"
  "to_double 540431955284459520 = Whole 540431955284459520"
  "to_double 0 = Whole 0"
  by (simp_all add: to_double_def big_bits Let_def)

lemma parseDuration_rounds_as_doubles:
  "parseDuration ''9007199254740993'' = Whole 9007199254740992
   \<and> parseDuration ''9007199254740995'' = Whole 9007199254740996
   \<and> parseDuration ''9007199254740993:0'' = Whole 540431955284459520"
  by (simp add: parseDuration_def numberPattern_test_def isDigit_def parseInt10_def
      match_timePattern_def match_shortPattern_def big_decimals big_doubles)

subsection \<open>Order of the episode list\<close>

lemma before_iff:
  "dated br x \<Longrightarrow> dated br y \<Longrightarrow>
   sorts_before_or_equal (pubDate_compare br) x y = (pubTime br y \<le> pubTime br x)"
  by (auto simp: sorts_before_or_equal_def pubDate_compare_def pubTime_def dated_def
      split: option.splits)

lemma set_sort_insert: "set (sort_insert cmp x ys) = insert x (set ys)"
  by (induction ys) auto

lemma sorted_sort_insert:
  "dated br x \<Longrightarrow> list_all (dated br) ys \<Longrightarrow> newest_first br ys \<Longrightarrow>
   newest_first br (sort_insert (pubDate_compare br) x ys)"
  unfolding newest_first_def
proof (induction ys)
  case Nil
  then show ?case by simp
next
  case (Cons y ys)
  show ?case
  proof (cases "pubTime br y \<le> pubTime br x")
    case True
    then have "sort_insert (pubDate_compare br) x (y # ys) = x # y # ys"
      using Cons.prems by (simp add: before_iff)
    moreover have "\<forall>z \<in> set ys. pubTime br z \<le> pubTime br x"
      using Cons.prems(3) True by auto
    ultimately show ?thesis using Cons.prems(3) True by simp
  next
    case False
    then have eq: "sort_insert (pubDate_compare br) x (y # ys)
                     = y # sort_insert (pubDate_compare br) x ys"
      using Cons.prems by (simp add: before_iff)
    have "sorted_wrt (\<lambda>a b. pubTime br b \<le> pubTime br a)
            (sort_insert (pubDate_compare br) x ys)"
      using Cons by simp
    moreover have "\<forall>z \<in> set (sort_insert (pubDate_compare br) x ys).
                     pubTime br z \<le> pubTime br y"
      using Cons.prems(3) False by (auto simp: set_sort_insert)
    ultimately show ?thesis unfolding eq by simp
  qed
qed

lemma mset_sort_insert: "mset (sort_insert cmp x ys) = add_mset x (mset ys)"
  by (induction ys) auto

lemma mset_array_sort: "mset (array_sort cmp xs) = mset xs"
  by (induction xs) (simp_all add: array_sort_def mset_sort_insert)

lemma set_array_sort: "set (array_sort cmp xs) = set xs"
  by (metis mset_array_sort set_mset_mset)

lemma sorted_array_sort:
  "list_all (dated br) xs \<Longrightarrow> newest_first br (array_sort (pubDate_compare br) xs)"
proof (induction xs)
  case Nil
  then show ?case by (simp add: array_sort_def newest_first_def)
next
  case (Cons x xs)
  have "list_all (dated br) (array_sort (pubDate_compare br) xs)"
    using Cons.prems by (simp add: list_all_iff set_array_sort)
  with Cons show ?case
    using sorted_sort_insert[of br x "array_sort (pubDate_compare br) xs"]
    by (simp add: array_sort_def)
qed

lemma parseEpisodeItem_pubDate:
  "parseEpisodeItem br it = Some e \<Longrightarrow> pubDate e = getTextContent it (Tag ''pubDate'')"
  by (auto simp: parseEpisodeItem_def Let_def split: if_splits)

lemma in_map_filter:
  "y \<in> set (List.map_filter f xs) \<longleftrightarrow> (\<exists>x \<in> set xs. f x = Some y)"
  by (induction xs) (auto simp: List.map_filter_simps split: option.splits)

text \<open>
  C6: when the publication date of every item of the feed parses, the list returned by
  \<^verbatim>\<open>parseEpisodesFromXML\<close> is in descending order of the parsed date, most recent first,
  and it holds exactly the episodes parsed from the items.
\<close>

theorem parseEpisodes_sorted:
  assumes "\<forall>it \<in> set (querySelectorAll (Tag ''item'') xmlDoc).
             dateParse br (getTextContent it (Tag ''pubDate'')) \<noteq> None"
  shows "newest_first br (parseEpisodesFromXML br xmlDoc)
         \<and> mset (parseEpisodesFromXML br xmlDoc)
             = mset (List.map_filter (parseEpisodeItem br) (querySelectorAll (Tag ''item'') xmlDoc))"
proof -
  have "list_all (dated br)
          (List.map_filter (parseEpisodeItem br) (querySelectorAll (Tag ''item'') xmlDoc))"
    using assms by (auto simp: list_all_iff in_map_filter dated_def parseEpisodeItem_pubDate)
  then show ?thesis
    by (simp add: parseEpisodesFromXML_def parseItems_def sorted_array_sort mset_array_sort)
qed

text \<open>The feed of the spec's example: items dated 2024-01-01, 2024-03-01 and 2024-02-01
  come back in the order 03-01, 02-01, 01-01.\<close>

theorem parseEpisodes_sorted_witness:
  "newest_first demo_browser (parseEpisodesFromXML demo_browser demo_feed)
   \<and> map pubDate (parseEpisodesFromXML demo_browser demo_feed)
       = [''2024-03-01'', ''2024-02-01'', ''2024-01-01'']
   \<and> map title (parseEpisodesFromXML demo_browser demo_feed) = [''March'', ''February'', ''January'']"
proof -
  have h: "\<forall>it \<in> set (querySelectorAll (Tag ''item'') demo_feed).
             dateParse demo_browser (getTextContent it (Tag ''pubDate'')) \<noteq> None"
    by code_simp
  have "map pubDate (parseEpisodesFromXML demo_browser demo_feed)
          = [''2024-03-01'', ''2024-02-01'', ''2024-01-01'']"
    by code_simp
  moreover have "map title (parseEpisodesFromXML demo_browser demo_feed)
          = [''March'', ''February'', ''January'']"
    by code_simp
  ultimately show ?thesis using parseEpisodes_sorted [OF h] by simp
qed

subsection \<open>Validity of the parsed episodes\<close>

text \<open>What the guard of \<^verbatim>\<open>parseEpisodeItem\<close> does secure: a non-empty audio locator, and a
  title element whose trimmed text is non-empty before the markup is stripped.\<close>

lemma parseEpisodeItem_guard:
  "parseEpisodeItem br it = Some e \<Longrightarrow>
     audioUrl e \<noteq> [] \<and> getTextContent it (Tag ''title'') \<noteq> []
     \<and> title e = stripHtml br (getTextContent it (Tag ''title''))"
  by (auto simp: parseEpisodeItem_def Let_def split: if_splits option.splits)

lemma parseEpisodes_audioUrl:
  "e \<in> set (parseEpisodesFromXML br xmlDoc) \<Longrightarrow> audioUrl e \<noteq> []"
  by (auto simp: parseEpisodesFromXML_def parseItems_def set_array_sort in_map_filter
      dest: parseEpisodeItem_guard)

text \<open>An item without enclosure, or whose enclosure has no or an empty \<^verbatim>\<open>url\<close>, yields no
  episode, whatever its other fields; dropping it changes nothing else in the result.\<close>

lemma parseEpisodeItem_no_enclosure:
  "querySelector (Tag ''enclosure'') it = None \<Longrightarrow> parseEpisodeItem br it = None"
  by (simp add: parseEpisodeItem_def Let_def)

lemma parseEpisodeItem_no_url:
  "querySelector (Tag ''enclosure'') it = Some n \<Longrightarrow> \<not> truthy (getAttribute n ''url'') \<Longrightarrow>
   parseEpisodeItem br it = None"
  by (simp add: parseEpisodeItem_def Let_def)

lemma parseItems_drop:
  "parseEpisodeItem br it = None \<Longrightarrow> parseItems br (xs @ it # ys) = parseItems br (xs @ ys)"
  by (simp add: parseItems_def List.map_filter_def)

text \<open>
  C4 holds of the audio locator and of the items without one, and fails of the title: the
  guard tests the title text before \<^verbatim>\<open>stripHtml\<close>, the episode stores it after. In the
  feed \<open>markup_feed\<close> the item whose title text is \<^verbatim>\<open><br>\<close> passes the guard and comes
  back as an episode with an empty title; the item without enclosure is dropped.
\<close>

theorem markup_title_gives_empty_title:
  "map title (parseEpisodesFromXML demo_browser markup_feed) = [[], ''January'']
   \<and> map audioUrl (parseEpisodesFromXML demo_browser markup_feed)
       = [''http://example.org/3.mp3'', ''http://example.org/1.mp3'']
   \<and> getTextContent (feed_item ''<br>'' ''2024-03-01'' (Some ''http://example.org/3.mp3''))
       (Tag ''title'') = ''<br>''
   \<and> stripHtml demo_browser ''<br>'' = []"
  by code_simp

subsection \<open>A feed that is not well-formed\<close>

lemma parse_failure_is_not_cors:
  "\<not> str_includes ''Failed to parse RSS feed'' ''CORS''"
  "\<not> str_includes ''Failed to parse RSS feed'' ''blocked''"
  by simp_all

text \<open>
  C2 (as amended): when the body fetched for a valid feed address that is not in the
  cache is not well-formed XML (the parser's document holds a \<^verbatim>\<open>parsererror\<close> element),
  \<^verbatim>\<open>parseXMLFromString\<close> absorbs the parser's fault and answers \<^verbatim>\<open>null\<close>, and
  \<^verbatim>\<open>getPodcastEpisodes\<close> then raises to its caller the failure "Failed to load episodes.
  Please try again later."; it returns no list and caches nothing.
\<close>

theorem getPodcastEpisodes_malformed:
  "feedUrl \<noteq> [] \<and> isValidUrl br feedUrl
   \<and> fst (getCachedData t0 (''episodes_'' @ btoa br feedUrl) 1800000 ls) = None
   \<and> fetch br feedUrl = Response True status body
   \<and> querySelector (Tag ''parsererror'') (parseFromString br body) \<noteq> None
   \<longrightarrow> parseXMLFromString br body = None
     \<and> getPodcastEpisodes br t0 t1 feedUrl ls
         = (Inl (Error ''Failed to load episodes. Please try again later.''),
            snd (getCachedData t0 (''episodes_'' @ btoa br feedUrl) 1800000 ls))"
  by (auto simp: getPodcastEpisodes_def fetch_and_parse_def parseXMLFromString_def Let_def
        parse_failure_is_not_cors
      simp del: str_includes.simps)

theorem getPodcastEpisodes_malformed_witness:
  "parseXMLFromString demo_browser ''<rss><channel>'' = None
   \<and> getPodcastEpisodes demo_browser 0 1 ''http://example.org/bad.xml'' Map.empty
       = (Inl (Error ''Failed to load episodes. Please try again later.''), Map.empty)"
proof -
  have "''http://example.org/bad.xml'' \<noteq> [] \<and> isValidUrl demo_browser ''http://example.org/bad.xml''
     \<and> fst (getCachedData 0 (''episodes_'' @ btoa demo_browser ''http://example.org/bad.xml'')
              1800000 (Map.empty :: (episode list) storage)) = None
     \<and> fetch demo_browser ''http://example.org/bad.xml'' = Response True 200 ''<rss><channel>''
     \<and> querySelector (Tag ''parsererror'') (parseFromString demo_browser ''<rss><channel>'') \<noteq> None"
    by (simp add: demo_browser_def getCachedData_def parsererror_doc_def querySelector_def)
  with getPodcastEpisodes_malformed
         [of "''http://example.org/bad.xml''" demo_browser 0 Map.empty 200 "''<rss><channel>''" 1]
  show ?thesis by (simp add: getCachedData_def)
qed

text \<open>
  C2 as stated fails: the truncated text \<^verbatim>\<open><rss><channel>\<close> is not well-formed, and the
  call raises instead of returning the empty list. (A well-formed feed without items does
  return the empty list.)
\<close>

theorem malformed_feed_raises_counterexample:
  "fetch demo_browser ''http://example.org/bad.xml'' = Response True 200 ''<rss><channel>''
   \<and> querySelector (Tag ''parsererror'') (parseFromString demo_browser ''<rss><channel>'')
       \<noteq> None
   \<and> fst (getPodcastEpisodes demo_browser 0 1 ''http://example.org/bad.xml'' Map.empty)
       = Inl (Error ''Failed to load episodes. Please try again later.'')
   \<and> fst (getPodcastEpisodes demo_browser 0 1 ''http://example.org/bad.xml'' Map.empty)
       \<noteq> Inr []"
  by code_simp

lemma empty_feed_returns_empty_list:
  "fst (getPodcastEpisodes demo_browser 0 1 ''http://example.org/empty.xml'' Map.empty) = Inr []"
  by code_simp


end
